theory Spec2Isabelle
  imports Main "HOL-Library.Word" "HOL-Library.Sublist"
begin

unbundle bit_operations_syntax

section \<open>The operating system the package runs on\<close>

text \<open>
  The package \<^verbatim>\<open>fakegopath\<close> is a thin layer over the Go standard library: every
  function of it creates directories, writes files or patches the variable GOPATH.
  The library calls it makes are modelled here as functions on an explicit world:
  a file system of directories and regular files (no symbolic links), the working
  directory, the umask, and the two places where GOPATH lives (the environment and
  \<^verbatim>\<open>build.Default.GOPATH\<close>).  A call fails for structural reasons only (a missing
  element, a file where a directory is needed, an existing name, a directory opened
  for writing); access control, full disks and I/O errors are outside the model,
  so permission bits are recorded but never consulted.
\<close>

type_synonym FileMode = "32 word"

datatype Errno = ENOENT | ENOTDIR | EEXIST | EISDIR | EINVAL | EBUSY | ENOTEMPTY

datatype Inode = File FileMode string | Directory FileMode

record World =
  inodes :: "string list \<Rightarrow> Inode option"  \<comment> \<open>absolute location (list of names from the root) to inode\<close>
  cwd :: "string list"                      \<comment> \<open>location of the working directory\<close>
  umask :: FileMode
  TMPDIR :: string                          \<comment> \<open>what \<^verbatim>\<open>os.Getenv("TMPDIR")\<close> returns\<close>
  GOPATH_env :: string                      \<comment> \<open>what \<^verbatim>\<open>os.Getenv("GOPATH")\<close> returns (empty when unset)\<close>
  GOPATH_build :: string                    \<comment> \<open>the variable \<^verbatim>\<open>build.Default.GOPATH\<close>\<close>
  logged :: "Errno list"                    \<comment> \<open>errors handed to \<^verbatim>\<open>log.Println\<close>\<close>

subsection \<open>Lexical path functions (package path/filepath, Unix)\<close>

text \<open>\<^verbatim>\<open>strings.Split(p, "/")\<close>: the result is never empty.\<close>

fun split_sep :: "string \<Rightarrow> string list" where
  "split_sep [] = [[]]"
| "split_sep (c # cs) =
     (if c = CHR ''/'' then [] # split_sep cs
      else (case split_sep cs of [] \<Rightarrow> [[c]] | e # es \<Rightarrow> (c # e) # es))"

text \<open>\<^verbatim>\<open>strings.Join(es, "/")\<close>.\<close>

fun join_sep :: "string list \<Rightarrow> string" where
  "join_sep [] = []"
| "join_sep [e] = e"
| "join_sep (e # e' # es) = e @ CHR ''/'' # join_sep (e' # es)"

text \<open>
  The loop of \<^verbatim>\<open>filepath.Clean\<close> over the elements of a path: empty elements and
  \<^verbatim>\<open>.\<close> are dropped, \<^verbatim>\<open>..\<close> removes the element before it when there is one that is
  not \<^verbatim>\<open>..\<close> itself, is dropped at the start of a rooted path, and is kept at the
  start of a relative one.
\<close>

fun clean_elems :: "bool \<Rightarrow> string list \<Rightarrow> string list \<Rightarrow> string list" where
  "clean_elems rooted out [] = out"
| "clean_elems rooted out (e # es) =
     (if e = [] \<or> e = ''.'' then clean_elems rooted out es
      else if e = ''..'' then
        (if out \<noteq> [] \<and> last out \<noteq> ''..'' then clean_elems rooted (butlast out) es
         else if rooted then clean_elems rooted out es
         else clean_elems rooted (out @ [''..'']) es)
      else clean_elems rooted (out @ [e]) es)"

definition filepath_Clean :: "string \<Rightarrow> string" where
  "filepath_Clean p =
     (if p = [] then ''.''
      else
        let rooted = (hd p = CHR ''/'');
            out = clean_elems rooted [] (split_sep p)
        in if rooted then CHR ''/'' # join_sep out
           else if out = [] then ''.''
           else join_sep out)"

text \<open>
  \<^verbatim>\<open>filepath.Join\<close> skips leading empty elements, joins the rest with the separator
  and cleans the result; with only empty elements it returns the empty string.
\<close>

definition filepath_Join :: "string list \<Rightarrow> string" where
  "filepath_Join elem =
     (case dropWhile (\<lambda>e. e = []) elem of
        [] \<Rightarrow> []
      | es \<Rightarrow> filepath_Clean (join_sep es))"

text \<open>\<^verbatim>\<open>filepath.Dir\<close>: everything up to the last separator, cleaned.\<close>

definition filepath_Dir :: "string \<Rightarrow> string" where
  "filepath_Dir p = filepath_Clean (rev (dropWhile (\<lambda>c. c \<noteq> CHR ''/'') (rev p)))"

subsection \<open>Path resolution\<close>

text \<open>
  The kernel resolves a path element by element: every element but the last must
  name an existing directory, \<^verbatim>\<open>.\<close> stays where it is and \<^verbatim>\<open>..\<close> goes to the parent.
  Repeated and trailing separators contribute no element.
\<close>

definition elems :: "string \<Rightarrow> string list" where
  "elems p = filter (\<lambda>e. e \<noteq> []) (split_sep p)"

definition final_elem :: "string \<Rightarrow> string" where
  "final_elem p = (if elems p = [] then [] else last (elems p))"

definition normal_name :: "string \<Rightarrow> bool" where
  "normal_name e \<longleftrightarrow> e \<noteq> [] \<and> e \<noteq> ''.'' \<and> e \<noteq> ''..''"

definition trailing_sep :: "string \<Rightarrow> bool" where
  "trailing_sep p \<longleftrightarrow> p \<noteq> [] \<and> last p = CHR ''/''"

fun walk :: "(string list \<Rightarrow> Inode option) \<Rightarrow> string list \<Rightarrow> string list \<Rightarrow> Errno + string list" where
  "walk f cur [] = Inr cur"
| "walk f cur (e # es) =
     (if e = ''.'' then walk f cur es
      else if e = ''..'' then walk f (butlast cur) es
      else (case f (cur @ [e]) of
              None \<Rightarrow> Inl ENOENT
            | Some (File _ _) \<Rightarrow> Inl ENOTDIR
            | Some (Directory _) \<Rightarrow> walk f (cur @ [e]) es))"

text \<open>
  The location a path names, whether or not something exists there.  The empty
  path names nothing (ENOENT); a path of separators only names the root.
\<close>

definition locate :: "World \<Rightarrow> string \<Rightarrow> Errno + string list" where
  "locate w p =
     (if p = [] then Inl ENOENT
      else if elems p = [] then Inr []
      else
        (case walk (inodes w) (if hd p = CHR ''/'' then [] else cwd w) (butlast (elems p)) of
           Inl e \<Rightarrow> Inl e
         | Inr d \<Rightarrow>
             (let l = last (elems p) in
              if l = ''.'' then Inr d
              else if l = ''..'' then Inr (butlast d)
              else Inr (d @ [l]))))"

subsection \<open>The calls of package os\<close>

text \<open>\<^verbatim>\<open>os.Stat\<close> (and \<^verbatim>\<open>os.Lstat\<close>, the same without symbolic links).\<close>

definition os_Stat :: "World \<Rightarrow> string \<Rightarrow> Errno + Inode" where
  "os_Stat w p =
     (case locate w p of
        Inl e \<Rightarrow> Inl e
      | Inr a \<Rightarrow>
          (case inodes w a of
             None \<Rightarrow> Inl ENOENT
           | Some (File m c) \<Rightarrow> if trailing_sep p then Inl ENOTDIR else Inr (File m c)
           | Some (Directory m) \<Rightarrow> Inr (Directory m)))"

text \<open>
  \<^verbatim>\<open>os.Mkdir(name, perm)\<close>: the new directory gets the permission bits less the
  umask; a final element \<^verbatim>\<open>.\<close> or \<^verbatim>\<open>..\<close>, and an existing name, give EEXIST.
\<close>

definition os_Mkdir :: "string \<Rightarrow> FileMode \<Rightarrow> World \<Rightarrow> Errno + World" where
  "os_Mkdir name perm w =
     (case locate w name of
        Inl e \<Rightarrow> Inl e
      | Inr a \<Rightarrow>
          if \<not> normal_name (final_elem name) then Inl EEXIST
          else (case inodes w a of
                  Some _ \<Rightarrow> Inl EEXIST
                | None \<Rightarrow> Inr (w\<lparr>inodes := (inodes w)(a \<mapsto> Directory (perm AND NOT (umask w)))\<rparr>)))"

text \<open>
  \<^verbatim>\<open>path[0:j-1]\<close> in \<^verbatim>\<open>os.MkdirAll\<close>: trailing separators are skipped, then the last
  element is scanned over, and the separator before it is left out.  It is empty
  exactly when \<^verbatim>\<open>j > 1\<close> fails.
\<close>

definition parent_of :: "string \<Rightarrow> string" where
  "parent_of path =
     rev (tl (dropWhile (\<lambda>c. c \<noteq> CHR ''/'') (dropWhile (\<lambda>c. c = CHR ''/'') (rev path))))"

lemma length_tl_less: "xs \<noteq> [] \<Longrightarrow> length (tl xs) < length xs"
  by (cases xs) simp_all

lemma length_parent_of: "parent_of path \<noteq> [] \<Longrightarrow> length (parent_of path) < length path"
proof -
  let ?a = "dropWhile (\<lambda>c. c = CHR ''/'') (rev path)"
  let ?b = "dropWhile (\<lambda>c. c \<noteq> CHR ''/'') ?a"
  assume "parent_of path \<noteq> []"
  then have "tl ?b \<noteq> []" by (simp add: parent_of_def)
  then have "?b \<noteq> []" by (metis list.sel(2))
  then have "length (tl ?b) < length ?b" by (rule length_tl_less)
  also have "length ?b \<le> length ?a" by (rule length_dropWhile_le)
  also have "length ?a \<le> length (rev path)" by (rule length_dropWhile_le)
  finally show ?thesis by (simp add: parent_of_def)
qed

text \<open>
  \<^verbatim>\<open>os.MkdirAll(path, perm)\<close>, as the library writes it: the fast path asks
  \<^verbatim>\<open>Stat\<close>; the slow path makes the parent first, then calls \<^verbatim>\<open>Mkdir\<close>, and when that
  fails looks once more whether the directory is there after all.
\<close>

function os_MkdirAll :: "string \<Rightarrow> FileMode \<Rightarrow> World \<Rightarrow> Errno option \<times> World" where
  "os_MkdirAll path perm w =
     (case os_Stat w path of
        Inr (Directory _) \<Rightarrow> (None, w)
      | Inr (File _ _) \<Rightarrow> (Some ENOTDIR, w)
      | Inl _ \<Rightarrow>
          (case (if parent_of path \<noteq> [] then os_MkdirAll (parent_of path) perm w else (None, w)) of
             (Some e, w1) \<Rightarrow> (Some e, w1)
           | (None, w1) \<Rightarrow>
               (case os_Mkdir path perm w1 of
                  Inr w2 \<Rightarrow> (None, w2)
                | Inl e \<Rightarrow>
                    (case os_Stat w1 path of
                       Inr (Directory _) \<Rightarrow> (None, w1)
                     | _ \<Rightarrow> (Some e, w1)))))"
  by pat_completeness auto
termination
  by (relation "measure (\<lambda>(path, perm, w). length path)") (simp_all add: length_parent_of)

declare os_MkdirAll.simps [simp del]

text \<open>
  \<^verbatim>\<open>os.OpenFile(name, os.O_CREATE|os.O_RDWR, perm)\<close>, the only flags the package
  uses: an existing regular file is opened as it is (there is no \<^verbatim>\<open>O_TRUNC\<close>), a
  missing one is created empty with the permission bits less the umask, and a
  directory cannot be opened for writing.  The handle is the location of the file.
\<close>

definition os_OpenFile :: "string \<Rightarrow> FileMode \<Rightarrow> World \<Rightarrow> Errno + (string list \<times> World)" where
  "os_OpenFile name perm w =
     (case locate w name of
        Inl e \<Rightarrow> Inl e
      | Inr a \<Rightarrow>
          (case inodes w a of
             Some (Directory _) \<Rightarrow> Inl EISDIR
           | Some (File _ _) \<Rightarrow> if trailing_sep name then Inl ENOTDIR else Inr (a, w)
           | None \<Rightarrow>
               if trailing_sep name \<or> \<not> normal_name (final_elem name) then Inl EISDIR
               else Inr (a, w\<lparr>inodes := (inodes w)(a \<mapsto> File (perm AND NOT (umask w)) [])\<rparr>)))"

text \<open>
  What \<^verbatim>\<open>io.Copy\<close> reads from: a \<^verbatim>\<open>bytes.Buffer\<close> with its bytes, or the file that
  \<^verbatim>\<open>os.Open\<close> opened.  Opening a directory for reading succeeds; reading from it
  fails with EISDIR.  Nothing between \<^verbatim>\<open>os.Open\<close> and the copy changes an existing
  file, so the opened file is kept with the content it had when it was opened.
\<close>

datatype Reader = Buffer string | Opened Inode

definition os_Open :: "string \<Rightarrow> World \<Rightarrow> Errno + Reader" where
  "os_Open name w = (case os_Stat w name of Inl e \<Rightarrow> Inl e | Inr n \<Rightarrow> Inr (Opened n))"

text \<open>The bytes a reader yields when it is read to its end; a directory yields none.\<close>

fun reader_bytes :: "Reader \<Rightarrow> string option" where
  "reader_bytes (Buffer bs) = Some bs"
| "reader_bytes (Opened (File m bs)) = Some bs"
| "reader_bytes (Opened (Directory m)) = None"

text \<open>
  Writing at offset 0 of a freshly opened file: the bytes replace the start of the
  old content, and what the old content has beyond them stays.
\<close>

definition write_at_start :: "string list \<Rightarrow> string \<Rightarrow> World \<Rightarrow> Errno option \<times> World" where
  "write_at_start h bs w =
     (case inodes w h of
        Some (File m old) \<Rightarrow> (None, w\<lparr>inodes := (inodes w)(h \<mapsto> File m (bs @ drop (length bs) old))\<rparr>)
      | _ \<Rightarrow> (Some EINVAL, w))"

definition io_Copy :: "string list \<Rightarrow> Reader \<Rightarrow> World \<Rightarrow> Errno option \<times> World" where
  "io_Copy h contents w =
     (case contents of
        Buffer bs \<Rightarrow> write_at_start h bs w
      | Opened (File _ bs) \<Rightarrow> write_at_start h bs w
      | Opened (Directory _) \<Rightarrow> (Some EISDIR, w))"

text \<open>
  \<^verbatim>\<open>os.RemoveAll(path)\<close>: the empty path is ignored, a path that ends in the element
  \<^verbatim>\<open>.\<close> is refused with EINVAL, a path that names nothing removes nothing, and
  otherwise what the path names goes with everything below it.  A directory
  named through a last element \<^verbatim>\<open>..\<close>, through a last element \<^verbatim>\<open>.\<close> followed by
  a separator, or the root, is emptied but stays, since the final \<^verbatim>\<open>rmdir\<close> refuses
  it: with ENOTEMPTY, with EINVAL and with EBUSY.
\<close>

definition endsWithDot :: "string \<Rightarrow> bool" where
  "endsWithDot path \<longleftrightarrow>
     path = ''.'' \<or> (2 \<le> length path \<and> last path = CHR ''.'' \<and> last (butlast path) = CHR ''/'')"

definition os_RemoveAll :: "string \<Rightarrow> World \<Rightarrow> Errno option \<times> World" where
  "os_RemoveAll path w =
     (if path = [] then (None, w)
      else if endsWithDot path then (Some EINVAL, w)
      else
        (case locate w path of
           Inl e \<Rightarrow> (if e = ENOENT then None else Some e, w)
         | Inr a \<Rightarrow>
             if normal_name (final_elem path)
             then (None, w\<lparr>inodes := (\<lambda>q. if prefix a q then None else inodes w q)\<rparr>)
             else (Some (if final_elem path = ''..'' then ENOTEMPTY
                         else if final_elem path = ''.'' then EINVAL else EBUSY),
                   w\<lparr>inodes := (\<lambda>q. if strict_prefix a q then None else inodes w q)\<rparr>)))"

text \<open>
  The environment: \<^verbatim>\<open>os.Getenv("GOPATH")\<close> and \<^verbatim>\<open>os.Setenv("GOPATH", v)\<close>.  An unset
  variable reads as the empty string.  Setting the variable always succeeds here: the
  library refuses only a value with a NUL byte in it, and the package drops the error
  of \<^verbatim>\<open>os.Setenv\<close> anyway.
\<close>

definition os_Getenv_GOPATH :: "World \<Rightarrow> string" where
  "os_Getenv_GOPATH w = GOPATH_env w"

definition os_Setenv_GOPATH :: "string \<Rightarrow> World \<Rightarrow> World" where
  "os_Setenv_GOPATH v w = w\<lparr>GOPATH_env := v\<rparr>"

text \<open>
  \<^verbatim>\<open>ioutil.TempDir("", prefix)\<close>.  The library draws random numbers until
  \<^verbatim>\<open>Mkdir\<close> stops answering EEXIST; \<open>rnd\<close> is the number of that last try.  A
  prefix with a separator is refused; a \<^verbatim>\<open>*\<close> in it marks where the number goes.
\<close>

function itoa :: "nat \<Rightarrow> string" where
  "itoa n = (if n < 10 then [''0123456789'' ! n] else itoa (n div 10) @ [''0123456789'' ! (n mod 10)])"
  by pat_completeness auto
termination
  by (relation "measure id") simp_all

declare itoa.simps [simp del]

definition os_TempDir :: "World \<Rightarrow> string" where
  "os_TempDir w = (if TMPDIR w = [] then ''/tmp'' else TMPDIR w)"

definition joinPath :: "string \<Rightarrow> string \<Rightarrow> string" where
  "joinPath dir name = (if dir \<noteq> [] \<and> last dir = CHR ''/'' then dir @ name else dir @ CHR ''/'' # name)"

text \<open>\<^verbatim>\<open>prefixAndSuffix\<close>: the pattern is split at its last \<^verbatim>\<open>*\<close>.\<close>

definition pattern_prefix :: "string \<Rightarrow> string" where
  "pattern_prefix pattern =
     (if CHR ''*'' \<in> set pattern then rev (tl (dropWhile (\<lambda>c. c \<noteq> CHR ''*'') (rev pattern)))
      else pattern)"

definition pattern_suffix :: "string \<Rightarrow> string" where
  "pattern_suffix pattern =
     (if CHR ''*'' \<in> set pattern then rev (takeWhile (\<lambda>c. c \<noteq> CHR ''*'') (rev pattern))
      else [])"

datatype Error =
    TempDirFailed Errno                 \<comment> \<open>the error of \<^verbatim>\<open>ioutil.TempDir\<close>, returned as it is\<close>
  | PatternHasSeparator
  | FailedToCreate string Errno         \<comment> \<open>\<^verbatim>\<open>failed to create %s: %v\<close> (DirectoryCreationFailed)\<close>
  | GopathMismatch string string        \<comment> \<open>\<^verbatim>\<open>GOPATH %s doesn't match build.Default.GOPATH %s\<close> (ConfigurationMismatch)\<close>
  | FailedToGenerate                    \<comment> \<open>\<^verbatim>\<open>failed to generate: %v\<close> (TemplateRenderFailed)\<close>
  | FailedToOpen string Errno           \<comment> \<open>\<^verbatim>\<open>failed to open %s: %v\<close> (SourceOpenFailed)\<close>
  | FailedToCreateDir string Errno      \<comment> \<open>\<^verbatim>\<open>failed to create dir %s: %v\<close> (DirectoryCreationFailed)\<close>
  | CouldntOpen string Errno            \<comment> \<open>\<^verbatim>\<open>couldn't open %s for writing: %v\<close> (FileOpenFailed)\<close>
  | CopyFailed Errno                    \<comment> \<open>\<^verbatim>\<open>copy failed: %v\<close> (CopyFailed)\<close>

definition ioutil_TempDir :: "string \<Rightarrow> nat \<Rightarrow> World \<Rightarrow> (Error + string) \<times> World" where
  "ioutil_TempDir pattern rnd w =
     (if CHR ''/'' \<in> set pattern then (Inl PatternHasSeparator, w)
      else
        let name = joinPath (os_TempDir w) (pattern_prefix pattern) @ itoa rnd @ pattern_suffix pattern
        in (case os_Mkdir name 448 w of
              Inl e \<Rightarrow> (Inl (TempDirFailed e), w)
            | Inr w' \<Rightarrow> (Inr name, w')))"

section \<open>The package fakegopath\<close>

text \<open>
  \<^verbatim>\<open>type Temporary struct\<close>.  The repository holds the file twice: the copy without a
  name (\<^verbatim>\<open>src/unnamed/part_000\<close>) has the first six fields, \<^verbatim>\<open>src/fakegopath.go\<close> adds
  \<^verbatim>\<open>deleteDir\<close>.  \<^verbatim>\<open>GenerateFile\<close>, \<^verbatim>\<open>CopyFile\<close> and \<^verbatim>\<open>WriteFile\<close> are the same text in
  both and are defined once, for both records.
\<close>

record Temporary_part000 =
  Path :: string      \<comment> \<open>The path that is appended.\<close>
  Orig :: string      \<comment> \<open>The original GOPATH\<close>
  Pkg :: string       \<comment> \<open>The pkg directory\<close>
  Src :: string       \<comment> \<open>The src directory\<close>
  Bin :: string       \<comment> \<open>The bin directory\<close>
  update :: bool

record Temporary = Temporary_part000 +
  deleteDir :: bool

record SourceFile =
  Src :: string
  Dest :: string
  Content :: "string option"   \<comment> \<open>\<^verbatim>\<open>[]byte\<close>: \<open>None\<close> is \<^verbatim>\<open>nil\<close>\<close>

text \<open>\<^verbatim>\<open>WriteFile\<close> (fakegopath.go, lines 128 to 143).  Closing the file never fails here.\<close>

definition WriteFile :: "'a Temporary_part000_scheme \<Rightarrow> string \<Rightarrow> Reader \<Rightarrow> World \<Rightarrow> Error option \<times> World" where
  "WriteFile t file contents w =
     (let fullPath = filepath_Join [Temporary_part000.Src t, file];
          fileDir = filepath_Dir fullPath
      in case os_MkdirAll fileDir 448 w of
           (Some err, w1) \<Rightarrow> (Some (FailedToCreateDir fileDir err), w1)
         | (None, w1) \<Rightarrow>
             (case os_OpenFile fullPath 384 w1 of
                Inl err \<Rightarrow> (Some (CouldntOpen fullPath err), w1)
              | Inr (h, w2) \<Rightarrow>
                  (case io_Copy h contents w2 of
                     (Some err, w3) \<Rightarrow> (Some (CopyFailed err), w3)
                   | (None, w3) \<Rightarrow> (None, w3))))"

text \<open>\<^verbatim>\<open>CopyFile\<close> (lines 117 to 124).\<close>

definition CopyFile :: "'a Temporary_part000_scheme \<Rightarrow> string \<Rightarrow> string \<Rightarrow> World \<Rightarrow> Error option \<times> World" where
  "CopyFile t dest src w =
     (case os_Open src w of
        Inl err \<Rightarrow> (Some (FailedToOpen src err), w)
      | Inr input \<Rightarrow> WriteFile t dest input w)"

text \<open>
  \<^verbatim>\<open>GenerateFile\<close> (lines 108 to 114).  The template is the function \<open>tpl\<close> from the
  arguments to the rendered bytes, \<open>None\<close> when \<^verbatim>\<open>tpl.Execute\<close> fails.
\<close>

definition GenerateFile :: "'a Temporary_part000_scheme \<Rightarrow> string \<Rightarrow> ('b \<Rightarrow> string option) \<Rightarrow> 'b \<Rightarrow> World \<Rightarrow> Error option \<times> World" where
  "GenerateFile t file tpl args w =
     (case tpl args of
        None \<Rightarrow> (Some FailedToGenerate, w)
      | Some buf \<Rightarrow> WriteFile t file (Buffer buf) w)"

text \<open>\<^verbatim>\<open>Copy\<close> (lines 54 to 67): the loop over the files.\<close>

fun Copy :: "Temporary \<Rightarrow> SourceFile list \<Rightarrow> World \<Rightarrow> Error option \<times> World" where
  "Copy t [] w = (None, w)"
| "Copy t (f # files) w =
     (case Content f of
        Some content \<Rightarrow>
          (case WriteFile t (Dest f) (Buffer content) w of
             (Some err, w') \<Rightarrow> (Some err, w')
           | (None, w') \<Rightarrow> Copy t files w')
      | None \<Rightarrow>
          (case CopyFile t (Dest f) (SourceFile.Src f) w of
             (Some err, w') \<Rightarrow> (Some err, w')
           | (None, w') \<Rightarrow> Copy t files w'))"

text \<open>
  The bytes an entry of \<^verbatim>\<open>Copy\<close> has to put on disk, in the world where its turn
  comes: its \<^verbatim>\<open>Content\<close> when that is set, and otherwise the content of the regular
  file its \<^verbatim>\<open>Src\<close> names.
\<close>

definition entry_bytes :: "SourceFile \<Rightarrow> World \<Rightarrow> string option" where
  "entry_bytes f w =
     (case Content f of
        Some content \<Rightarrow> Some content
      | None \<Rightarrow> (case os_Stat w (SourceFile.Src f) of
                   Inr (File m bs) \<Rightarrow> Some bs
                 | _ \<Rightarrow> None))"

text \<open>\<^verbatim>\<open>KeepTempDir\<close> (line 69).\<close>

definition KeepTempDir :: "bool \<Rightarrow> Temporary \<Rightarrow> Temporary" where
  "KeepTempDir keep t = t\<lparr>deleteDir := \<not> keep\<rparr>"

text \<open>The loop of \<^verbatim>\<open>NewTemporary\<close> over the three directories (lines 83 to 87).\<close>

fun mkdir_each :: "string list \<Rightarrow> World \<Rightarrow> Error option \<times> World" where
  "mkdir_each [] w = (None, w)"
| "mkdir_each (d # ds) w =
     (case os_MkdirAll d 448 w of
        (Some err, w') \<Rightarrow> (Some (FailedToCreate d err), w')
      | (None, w') \<Rightarrow> mkdir_each ds w')"

text \<open>\<^verbatim>\<open>NewTemporary\<close> (fakegopath.go, lines 73 to 98).\<close>

definition NewTemporary :: "string \<Rightarrow> bool \<Rightarrow> World \<Rightarrow> (Error + Temporary) \<times> World" where
  "NewTemporary dir updateGoPath w =
     (let t = \<lparr>Path = dir, Orig = [],
               Pkg = filepath_Join [dir, ''pkg''],
               Src = filepath_Join [dir, ''src''],
               Bin = filepath_Join [dir, ''bin''],
               update = updateGoPath, deleteDir = False\<rparr>
      in case mkdir_each [Temporary_part000.Src t, Pkg t, Bin t] w of
           (Some err, w1) \<Rightarrow> (Inl err, w1)
         | (None, w1) \<Rightarrow>
             if update t then
               (let t' = t\<lparr>Orig := GOPATH_build w1\<rparr> in
                if os_Getenv_GOPATH w1 \<noteq> Orig t'
                then (Inl (GopathMismatch (os_Getenv_GOPATH w1) (Orig t')), w1)
                else
                  (let w2 = w1\<lparr>GOPATH_build := dir @ '':'' @ GOPATH_build w1\<rparr>
                   in (Inr t', os_Setenv_GOPATH (GOPATH_build w2) w2)))
             else (Inr t, w1))"

text \<open>\<^verbatim>\<open>Reset\<close> (lines 146 to 156); an error of \<^verbatim>\<open>RemoveAll\<close> is logged.\<close>

definition Reset :: "Temporary \<Rightarrow> World \<Rightarrow> World" where
  "Reset t w =
     (let w1 = (if update t then os_Setenv_GOPATH (Orig t) (w\<lparr>GOPATH_build := Orig t\<rparr>) else w)
      in if deleteDir t then
           (case os_RemoveAll (Path t) w1 of
              (Some err, w2) \<Rightarrow> w2\<lparr>logged := logged w2 @ [err]\<rparr>
            | (None, w2) \<Rightarrow> w2)
         else w1)"

text \<open>\<^verbatim>\<open>NewTemporaryWithFiles\<close> (lines 35 to 51).\<close>

definition NewTemporaryWithFiles :: "string \<Rightarrow> SourceFile list \<Rightarrow> nat \<Rightarrow> World \<Rightarrow> (Error + Temporary) \<times> World" where
  "NewTemporaryWithFiles prefix' files rnd w =
     (case ioutil_TempDir prefix' rnd w of
        (Inl err, w0) \<Rightarrow> (Inl err, w0)
      | (Inr dir, w0) \<Rightarrow>
          (case NewTemporary dir True w0 of
             (Inl err, w1) \<Rightarrow> (Inl err, snd (os_RemoveAll dir w1))
           | (Inr t, w1) \<Rightarrow>
               (let t' = t\<lparr>deleteDir := True\<rparr> in
                case Copy t' files w1 of
                  (Some err, w2) \<Rightarrow> (Inl err, Reset t' w2)
                | (None, w2) \<Rightarrow> (Inr t', w2))))"

subsection \<open>The copy in src/unnamed/part\_000\<close>

text \<open>
  \<^verbatim>\<open>NewTemporary\<close> and \<^verbatim>\<open>Reset\<close> as the unnamed copy has them (its lines 27 to 51 and
  99 to 104): the directory goes behind the old GOPATH, and nothing is ever deleted.
\<close>

definition NewTemporary_part000 :: "string \<Rightarrow> bool \<Rightarrow> World \<Rightarrow> (Error + Temporary_part000) \<times> World" where
  "NewTemporary_part000 dir updateGoPath w =
     (let t = \<lparr>Path = dir, Orig = [],
               Pkg = filepath_Join [dir, ''pkg''],
               Src = filepath_Join [dir, ''src''],
               Bin = filepath_Join [dir, ''bin''],
               update = updateGoPath\<rparr>
      in case mkdir_each [Temporary_part000.Src t, Pkg t, Bin t] w of
           (Some err, w1) \<Rightarrow> (Inl err, w1)
         | (None, w1) \<Rightarrow>
             if update t then
               (let t' = t\<lparr>Orig := GOPATH_build w1\<rparr> in
                if os_Getenv_GOPATH w1 \<noteq> Orig t'
                then (Inl (GopathMismatch (os_Getenv_GOPATH w1) (Orig t')), w1)
                else
                  (let w2 = w1\<lparr>GOPATH_build := GOPATH_build w1 @ '':'' @ dir\<rparr>
                   in (Inr t', os_Setenv_GOPATH (GOPATH_build w2) w2)))
             else (Inr t, w1))"

definition Reset_part000 :: "Temporary_part000 \<Rightarrow> World \<Rightarrow> World" where
  "Reset_part000 t w =
     (if update t then os_Setenv_GOPATH (Orig t) (w\<lparr>GOPATH_build := Orig t\<rparr>) else w)"

section \<open>Relations between worlds, and the worlds of the examples\<close>

text \<open>
  Three relations between a world and a later one: only the file system differs;
  the later one has everything the earlier had, unchanged; the later one has the
  directories of the earlier one.  Path resolution depends on directories only, so
  a path that named a location keeps naming it as long as directories are kept.
  \<open>made_dirs\<close> says that, beyond this, everything new is a directory of the
  mode \<^verbatim>\<open>Mkdir\<close> gives it.
\<close>

definition only_fs :: "World \<Rightarrow> World \<Rightarrow> bool" where
  "only_fs w w' \<longleftrightarrow> w' = w\<lparr>inodes := inodes w'\<rparr>"

definition extends :: "World \<Rightarrow> World \<Rightarrow> bool" where
  "extends w w' \<longleftrightarrow> only_fs w w' \<and> (\<forall>q n. inodes w q = Some n \<longrightarrow> inodes w' q = Some n)"

definition keeps_dirs :: "World \<Rightarrow> World \<Rightarrow> bool" where
  "keeps_dirs w w' \<longleftrightarrow>
     cwd w' = cwd w \<and> (\<forall>q m. inodes w q = Some (Directory m) \<longrightarrow> inodes w' q = Some (Directory m))"

text \<open>
  The later world has a regular file, of the same mode, wherever the earlier one had
  one; the content may differ.
\<close>

definition keeps_files :: "World \<Rightarrow> World \<Rightarrow> bool" where
  "keeps_files w w' \<longleftrightarrow>
     (\<forall>q m c. inodes w q = Some (File m c) \<longrightarrow> (\<exists>c'. inodes w' q = Some (File m c')))"

definition made_dirs :: "FileMode \<Rightarrow> World \<Rightarrow> World \<Rightarrow> bool" where
  "made_dirs perm w w' \<longleftrightarrow>
     extends w w' \<and>
     (\<forall>q. inodes w q = None \<longrightarrow>
          inodes w' q = None \<or> inodes w' q = Some (Directory (perm AND NOT (umask w))))"

text \<open>
  The struct \<^verbatim>\<open>NewTemporary\<close> builds at its lines 74 to 81.
\<close>

definition new_t :: "string \<Rightarrow> bool \<Rightarrow> Temporary" where
  "new_t dir u = \<lparr>Path = dir, Orig = [],
               Pkg = filepath_Join [dir, ''pkg''],
               Src = filepath_Join [dir, ''src''],
               Bin = filepath_Join [dir, ''bin''],
               update = u, deleteDir = False\<rparr>"

text \<open>
  The worlds the examples run in.  \<open>example_world\<close> has \<^verbatim>\<open>/tmp\<close>, the working
  directory \<^verbatim>\<open>/w\<close> with a regular file \<^verbatim>\<open>f\<close> in it, the umask 022 and GOPATH
  \<^verbatim>\<open>/go\<close>; in \<open>stale_world\<close> the cached GOPATH differs from the environment's; in
  \<open>used_world\<close> the directory \<^verbatim>\<open>/tmp/g/src\<close> is there already, with mode 0755.
  \<open>workspace_world\<close> is the world after \<^verbatim>\<open>NewTemporary("/tmp/g", true)\<close>, with one file
  in the source root, and \<open>example_ws\<close> is the workspace that call returns.  The modes
  are decimal: 448 is 0700, 384 is 0600, 493 is 0755, 420 is 0644, 511 is 0777, and 63
  is 0077, the bits of group and others.
\<close>

definition example_world :: World where
  "example_world =
     \<lparr>inodes = [[] \<mapsto> Directory 493, [''tmp''] \<mapsto> Directory 511, [''w''] \<mapsto> Directory 493,
                [''w'', ''f''] \<mapsto> File 420 ''hello world''],
      cwd = [''w''], umask = 18, TMPDIR = [], GOPATH_env = ''/go'', GOPATH_build = ''/go'', logged = []\<rparr>"

definition stale_world :: World where
  "stale_world = example_world\<lparr>GOPATH_build := ''/stale''\<rparr>"

definition used_world :: World where
  "used_world =
     \<lparr>inodes = [[] \<mapsto> Directory 493, [''tmp''] \<mapsto> Directory 511, [''tmp'', ''g''] \<mapsto> Directory 493,
                [''tmp'', ''g'', ''src''] \<mapsto> Directory 493, [''w''] \<mapsto> Directory 493],
      cwd = [''w''], umask = 18, TMPDIR = [], GOPATH_env = ''/go'', GOPATH_build = ''/go'', logged = []\<rparr>"

definition example_ws :: Temporary where
  "example_ws = \<lparr>Path = ''/tmp/g'', Orig = ''/go'', Pkg = ''/tmp/g/pkg'', Src = ''/tmp/g/src'',
                  Bin = ''/tmp/g/bin'', update = True, deleteDir = False\<rparr>"

definition workspace_world :: World where
  "workspace_world =
     \<lparr>inodes = [[] \<mapsto> Directory 493, [''tmp''] \<mapsto> Directory 511, [''w''] \<mapsto> Directory 493,
                [''tmp'', ''g''] \<mapsto> Directory 448, [''tmp'', ''g'', ''src''] \<mapsto> Directory 448,
                [''tmp'', ''g'', ''pkg''] \<mapsto> Directory 448, [''tmp'', ''g'', ''bin''] \<mapsto> Directory 448,
                [''tmp'', ''g'', ''src'', ''old.txt''] \<mapsto> File 420 ''hello world''],
      cwd = [''w''], umask = 18, TMPDIR = [], GOPATH_env = ''/tmp/g:/go'',
      GOPATH_build = ''/tmp/g:/go'', logged = []\<rparr>"

definition three_files :: "SourceFile list" where
  "three_files =
     [\<lparr>Src = [], Dest = ''one.txt'', Content = Some ''1''\<rparr>,
      \<lparr>Src = ''/nope'', Dest = ''two.txt'', Content = None\<rparr>,
      \<lparr>Src = [], Dest = ''three.txt'', Content = Some ''3''\<rparr>]"

text \<open>
  A list that copies an existing file before it writes one and fails at its third entry.
\<close>

definition mixed_files :: "SourceFile list" where
  "mixed_files =
     [\<lparr>Src = ''/tmp/g/src/old.txt'', Dest = ''new.txt'', Content = None\<rparr>,
      \<lparr>Src = [], Dest = ''one.txt'', Content = Some ''1''\<rparr>,
      \<lparr>Src = ''/nope'', Dest = ''two.txt'', Content = None\<rparr>,
      \<lparr>Src = [], Dest = ''three.txt'', Content = Some ''3''\<rparr>]"

section \<open>Properties of the operating-system calls\<close>

subsection \<open>The lexical functions on the library's examples\<close>

text \<open>
  \<^verbatim>\<open>filepath.Clean\<close>, \<^verbatim>\<open>filepath.Dir\<close> and \<^verbatim>\<open>filepath.Join\<close> as defined above, run on
  examples of every rule of the library's documentation: repeated and trailing
  separators, \<^verbatim>\<open>.\<close> and \<^verbatim>\<open>..\<close> inside a path and at its start, rooted and relative paths,
  the empty path.  The results are the ones the library returns on Unix.
\<close>

lemma Clean_table:
  "map filepath_Clean [''abc'', ''abc/def'', ''a/b/c'', ''.'', ''..'', ''../..'', ''../../abc'',
      ''/abc'', ''/'', [], ''abc/'', ''abc/def/'', ''a/b/c/'', ''./'', ''../'', ''../../'',
      ''/abc/'', ''abc//def//ghi'', ''//abc'', ''///abc'', ''//abc//'', ''abc//'', ''abc/./def'',
      ''/./abc/def'', ''abc/.'', ''abc/def/ghi/../jkl'', ''abc/def/../ghi/../jkl'',
      ''abc/def/..'', ''abc/def/../..'', ''/abc/def/../..'', ''abc/def/../../..'',
      ''/abc/def/../../..'', ''abc/def/../../../ghi/jkl/../../../mno'', ''/../abc'',
      ''abc/./../def'', ''abc//./../def'', ''abc/../../././../def'']
   = [''abc'', ''abc/def'', ''a/b/c'', ''.'', ''..'', ''../..'', ''../../abc'', ''/abc'', ''/'',
      ''.'', ''abc'', ''abc/def'', ''a/b/c'', ''.'', ''..'', ''../..'', ''/abc'',
      ''abc/def/ghi'', ''/abc'', ''/abc'', ''/abc'', ''abc'', ''abc/def'', ''/abc/def'', ''abc'',
      ''abc/def/jkl'', ''abc/jkl'', ''abc'', ''.'', ''/'', ''..'', ''/'', ''../../mno'',
      ''/abc'', ''def'', ''def'', ''../../def'']"
  by code_simp

lemma Dir_table:
  "map filepath_Dir [[], ''.'', ''/.'', ''/'', ''/foo'', ''x/'', ''abc'', ''abc/def'',
      ''a/b/.x'', ''a/b/c.'', ''a/b/c.x'', ''////'']
   = [''.'', ''.'', ''/'', ''/'', ''/'', ''x'', ''.'', ''abc'', ''a/b'', ''a/b'', ''a/b'', ''/'']"
  by code_simp

lemma Join_table:
  "map filepath_Join [[], [[]], [''a''], [''a'', ''b''], [''a'', []], [[], ''b''], [''/'',
      ''a''], [''/'', ''a/b''], [''/'', []], [''/a'', ''b''], [''a'', ''/b''], [''/a'', ''/b''],
      [''a/'', ''b''], [''a/'', []], [[], []]]
   = [[], [], ''a'', ''a/b'', ''a'', ''b'', ''/a'', ''/a/b'', ''/'', ''/a/b'', ''a/b'', ''/a/b'',
      ''a/b'', ''a'', []]"
  by code_simp

subsection \<open>The relations\<close>

lemma only_fs_refl: "only_fs w w"
  by (simp add: only_fs_def)

lemma only_fs_trans: "only_fs w w1 \<Longrightarrow> only_fs w1 w2 \<Longrightarrow> only_fs w w2"
  unfolding only_fs_def by (metis World.update_convs(1) World.surjective World.select_convs)

lemma only_fs_fields:
  "only_fs w w' \<Longrightarrow> cwd w' = cwd w \<and> umask w' = umask w \<and> TMPDIR w' = TMPDIR w \<and>
     GOPATH_env w' = GOPATH_env w \<and> GOPATH_build w' = GOPATH_build w \<and> logged w' = logged w"
  unfolding only_fs_def by (metis World.select_convs World.surjective World.update_convs(1))

lemma only_fs_upd: "only_fs w (w\<lparr>inodes := f\<rparr>)"
  by (simp add: only_fs_def)

lemma extends_refl: "extends w w"
  by (simp add: extends_def only_fs_refl)

lemma extends_trans: "extends w w1 \<Longrightarrow> extends w1 w2 \<Longrightarrow> extends w w2"
  unfolding extends_def using only_fs_trans by blast

lemma extends_keeps_dirs: "extends w w' \<Longrightarrow> keeps_dirs w w'"
  unfolding extends_def keeps_dirs_def using only_fs_fields by blast

lemma keeps_dirs_refl: "keeps_dirs w w"
  by (simp add: keeps_dirs_def)

lemma keeps_dirs_trans: "keeps_dirs w w1 \<Longrightarrow> keeps_dirs w1 w2 \<Longrightarrow> keeps_dirs w w2"
  unfolding keeps_dirs_def by simp

lemma keeps_files_refl: "keeps_files w w"
  by (simp add: keeps_files_def)

lemma keeps_files_trans: "keeps_files w w1 \<Longrightarrow> keeps_files w1 w2 \<Longrightarrow> keeps_files w w2"
  unfolding keeps_files_def by fast

lemma extends_keeps_files: "extends w w' \<Longrightarrow> keeps_files w w'"
  by (simp add: extends_def keeps_files_def)

lemma made_dirs_refl: "made_dirs perm w w"
  by (simp add: made_dirs_def extends_refl)

lemma made_dirs_trans:
  assumes "made_dirs perm w w1" and "made_dirs perm w1 w2"
  shows "made_dirs perm w w2"
proof -
  from assms(1) have u: "umask w1 = umask w"
    by (simp add: made_dirs_def extends_def only_fs_fields)
  from assms have e: "extends w w2"
    by (auto simp: made_dirs_def intro: extends_trans)
  have "inodes w2 q = None \<or> inodes w2 q = Some (Directory (perm AND NOT (umask w)))"
    if q: "inodes w q = None" for q
  proof (cases "inodes w1 q")
    case None
    with assms(2) show ?thesis by (simp add: made_dirs_def u)
  next
    case (Some n)
    with assms(1) q have "n = Directory (perm AND NOT (umask w))"
      unfolding made_dirs_def by (metis option.distinct(1) option.inject)
    moreover from assms(2) Some have "inodes w2 q = Some n" by (simp add: made_dirs_def extends_def)
    ultimately show ?thesis by simp
  qed
  with e show ?thesis by (simp add: made_dirs_def)
qed

subsection \<open>Path resolution in a later world\<close>

lemma walk_mono:
  assumes "\<And>q m. f q = Some (Directory m) \<Longrightarrow> f' q = Some (Directory m)"
  shows "walk f cur es = Inr d \<Longrightarrow> walk f' cur es = Inr d"
proof (induction es arbitrary: cur)
  case Nil
  then show ?case by simp
next
  case (Cons e es)
  show ?case
  proof (cases "e = ''.'' \<or> e = ''..''")
    case True
    with Cons show ?thesis by auto
  next
    case False
    with Cons.prems obtain m where m: "f (cur @ [e]) = Some (Directory m)" and
      rest: "walk f (cur @ [e]) es = Inr d"
      by (auto split: option.splits Inode.splits)
    from m have "f' (cur @ [e]) = Some (Directory m)" by (rule assms)
    with False rest Cons.IH show ?thesis by simp
  qed
qed

lemma locate_walk:
  "p \<noteq> [] \<Longrightarrow> elems p \<noteq> [] \<Longrightarrow>
   walk (inodes w) (if hd p = CHR ''/'' then [] else cwd w) (butlast (elems p)) = Inr d \<Longrightarrow>
   locate w p = (if last (elems p) = ''.'' then Inr d
                 else if last (elems p) = ''..'' then Inr (butlast d)
                 else Inr (d @ [last (elems p)]))"
  by (simp add: locate_def Let_def)

lemma locate_mono: "keeps_dirs w w' \<Longrightarrow> locate w p = Inr a \<Longrightarrow> locate w' p = Inr a"
proof -
  assume k: "keeps_dirs w w'" and l: "locate w p = Inr a"
  have m: "\<And>cur es d. walk (inodes w) cur es = Inr d \<Longrightarrow> walk (inodes w') cur es = Inr d"
    using k walk_mono[of "inodes w" "inodes w'"] by (simp add: keeps_dirs_def)
  from k have c: "cwd w' = cwd w" by (simp add: keeps_dirs_def)
  show ?thesis
  proof (cases "p = [] \<or> elems p = []")
    case True
    with l show ?thesis by (auto simp: locate_def)
  next
    case False
    then have ne: "p \<noteq> []" "elems p \<noteq> []" by simp_all
    from l ne obtain d where
      d: "walk (inodes w) (if hd p = CHR ''/'' then [] else cwd w) (butlast (elems p)) = Inr d"
      by (cases "walk (inodes w) (if hd p = CHR ''/'' then [] else cwd w) (butlast (elems p))")
         (simp_all add: locate_def)
    from m[OF d] have d': "walk (inodes w') (if hd p = CHR ''/'' then [] else cwd w') (butlast (elems p)) = Inr d"
      unfolding c .
    show ?thesis
      using l unfolding locate_walk[OF ne d] locate_walk[OF ne d'] .
  qed
qed

lemma stat_dir_mono:
  "keeps_dirs w w' \<Longrightarrow> os_Stat w p = Inr (Directory m) \<Longrightarrow> os_Stat w' p = Inr (Directory m)"
proof -
  assume k: "keeps_dirs w w'" and s: "os_Stat w p = Inr (Directory m)"
  from s obtain a where a: "locate w p = Inr a" and n: "inodes w a = Some (Directory m)"
    by (auto simp: os_Stat_def split: sum.splits option.splits Inode.splits if_splits)
  from k a have "locate w' p = Inr a" by (rule locate_mono)
  moreover from k n have "inodes w' a = Some (Directory m)" by (simp add: keeps_dirs_def)
  ultimately show ?thesis by (simp add: os_Stat_def)
qed

lemma locate_same:
  "inodes w' = inodes w \<Longrightarrow> cwd w' = cwd w \<Longrightarrow> locate w' p = locate w p"
  unfolding locate_def by simp

lemma os_Stat_same:
  assumes "inodes w' = inodes w" and "cwd w' = cwd w"
  shows "os_Stat w' p = os_Stat w p"
  unfolding os_Stat_def locate_same[OF assms] assms(1) by (rule refl)

subsection \<open>Paths that end in a dot\<close>

lemma split_sep_nonempty: "split_sep p \<noteq> []"
  by (induction p) (auto split: list.splits)

lemma split_sep_append: "split_sep (xs @ CHR ''/'' # ys) = split_sep xs @ split_sep ys"
proof (induction xs)
  case Nil
  then show ?case by simp
next
  case (Cons c xs)
  then show ?case
    using split_sep_nonempty[of xs] by (cases "split_sep xs") auto
qed

lemma last_filter_keep: "xs \<noteq> [] \<Longrightarrow> P (last xs) \<Longrightarrow> last (filter P xs) = last xs"
  by (induction xs) (auto simp: filter_empty_conv)

lemma endsWithDot_final:
  assumes "endsWithDot p"
  shows "final_elem p = ''.''"
proof -
  have l: "last (split_sep p) = ''.''"
  proof (cases "p = ''.''")
    case True
    then show ?thesis by simp
  next
    case False
    with assms have len: "2 \<le> length p" and a: "last p = CHR ''.''" and b: "last (butlast p) = CHR ''/''"
      by (simp_all add: endsWithDot_def)
    from len have ne: "p \<noteq> []" "butlast p \<noteq> []" by (cases p; cases "tl p"; auto)+
    have "p = butlast p @ [last p]" using ne(1) by simp
    also have "butlast p = butlast (butlast p) @ [last (butlast p)]" using ne(2) by simp
    finally have "p = butlast (butlast p) @ CHR ''/'' # ''.''"
      using a b by simp
    then have "split_sep p = split_sep (butlast (butlast p)) @ split_sep ''.''"
      using split_sep_append[of "butlast (butlast p)" "''.''"] by simp
    then show ?thesis by simp
  qed
  then have "last (filter (\<lambda>e. e \<noteq> []) (split_sep p)) = ''.''"
    using last_filter_keep[of "split_sep p" "\<lambda>e. e \<noteq> []"] split_sep_nonempty[of p] by simp
  moreover have "last (split_sep p) \<in> set (split_sep p)"
    by (rule last_in_set) (rule split_sep_nonempty)
  then have "\<exists>e\<in>set (split_sep p). e \<noteq> []"
    by (rule rev_bexI) (simp add: l)
  then have "filter (\<lambda>e. e \<noteq> []) (split_sep p) \<noteq> []"
    by (simp add: filter_empty_conv)
  ultimately show ?thesis by (simp add: final_elem_def elems_def)
qed

lemma normal_final:
  assumes "normal_name (final_elem path)"
  shows "path \<noteq> [] \<and> \<not> endsWithDot path"
proof -
  have "path \<noteq> []" using assms by (auto simp: normal_name_def final_elem_def elems_def)
  moreover have "\<not> endsWithDot path"
    using assms endsWithDot_final[of path] by (auto simp: normal_name_def)
  ultimately show ?thesis by simp
qed

subsection \<open>Mkdir and MkdirAll\<close>

lemma Mkdir_result:
  assumes "os_Mkdir name perm w = Inr w'"
  shows "\<exists>a. locate w name = Inr a \<and> inodes w a = None \<and> normal_name (final_elem name) \<and>
             w' = w\<lparr>inodes := (inodes w)(a \<mapsto> Directory (perm AND NOT (umask w)))\<rparr>"
  using assms by (auto simp: os_Mkdir_def split: sum.splits option.splits if_splits)

lemma Mkdir_extends: "os_Mkdir name perm w = Inr w' \<Longrightarrow> extends w w'"
  by (drule Mkdir_result) (auto simp: extends_def only_fs_def)

lemma Mkdir_stat:
  assumes "os_Mkdir name perm w = Inr w'"
  shows "os_Stat w' name = Inr (Directory (perm AND NOT (umask w)))"
proof -
  from Mkdir_result[OF assms] obtain a where a: "locate w name = Inr a"
    and w': "w' = w\<lparr>inodes := (inodes w)(a \<mapsto> Directory (perm AND NOT (umask w)))\<rparr>" by blast
  from assms have "keeps_dirs w w'" by (intro extends_keeps_dirs Mkdir_extends)
  then have "locate w' name = Inr a" using a by (rule locate_mono)
  with w' show ?thesis by (simp add: os_Stat_def)
qed

lemma Mkdir_made: "os_Mkdir name perm w = Inr w' \<Longrightarrow> made_dirs perm w w'"
  by (frule Mkdir_extends, drule Mkdir_result) (auto simp: made_dirs_def)

lemma MkdirAll_cases:
  assumes "os_MkdirAll path perm w = (r, w')"
  obtains
    (fast_dir) m where "os_Stat w path = Inr (Directory m)" "r = None" "w' = w"
  | (fast_file) m c where "os_Stat w path = Inr (File m c)" "r = Some ENOTDIR" "w' = w"
  | (parent_failed) e0 e where "os_Stat w path = Inl e0" "parent_of path \<noteq> []"
      "os_MkdirAll (parent_of path) perm w = (Some e, w')" "r = Some e"
  | (made) e0 w1 where "os_Stat w path = Inl e0"
      "parent_of path \<noteq> [] \<Longrightarrow> os_MkdirAll (parent_of path) perm w = (None, w1)"
      "parent_of path = [] \<Longrightarrow> w1 = w"
      "os_Mkdir path perm w1 = Inr w'" "r = None"
  | (there) e0 e m where "os_Stat w path = Inl e0"
      "parent_of path \<noteq> [] \<Longrightarrow> os_MkdirAll (parent_of path) perm w = (None, w')"
      "parent_of path = [] \<Longrightarrow> w' = w"
      "os_Mkdir path perm w' = Inl e" "os_Stat w' path = Inr (Directory m)" "r = None"
  | (mkdir_failed) e0 e where "os_Stat w path = Inl e0"
      "parent_of path \<noteq> [] \<Longrightarrow> os_MkdirAll (parent_of path) perm w = (None, w')"
      "parent_of path = [] \<Longrightarrow> w' = w"
      "os_Mkdir path perm w' = Inl e" "r = Some e"
proof (cases "os_Stat w path")
  case (Inr n)
  with assms show ?thesis
    by (cases n) (auto simp: os_MkdirAll.simps[of path perm w] intro: fast_dir fast_file)
next
  case (Inl e0)
  define pr where "pr = (if parent_of path \<noteq> [] then os_MkdirAll (parent_of path) perm w else (None, w))"
  obtain r1 w1 where p: "pr = (r1, w1)" by (cases pr)
  from assms Inl p have res:
    "(case r1 of
        Some e \<Rightarrow> (Some e, w1)
      | None \<Rightarrow>
          (case os_Mkdir path perm w1 of
             Inr w2 \<Rightarrow> (None, w2)
           | Inl e \<Rightarrow> (case os_Stat w1 path of Inr (Directory _) \<Rightarrow> (None, w1) | _ \<Rightarrow> (Some e, w1)))) = (r, w')"
    by (simp add: os_MkdirAll.simps[of path perm w] pr_def[symmetric])
  show ?thesis
  proof (cases r1)
    case (Some e)
    with res have "r = Some e" "w' = w1" by simp_all
    moreover from p Some have "parent_of path \<noteq> []" "os_MkdirAll (parent_of path) perm w = (Some e, w1)"
      by (auto simp: pr_def split: if_splits)
    ultimately show ?thesis using Inl by (auto intro: parent_failed)
  next
    case None
    from p None have p1: "parent_of path \<noteq> [] \<Longrightarrow> os_MkdirAll (parent_of path) perm w = (None, w1)"
      and p2: "parent_of path = [] \<Longrightarrow> w1 = w"
      by (auto simp: pr_def split: if_splits)
    show ?thesis
    proof (cases "os_Mkdir path perm w1")
      case (Inr w2)
      with res None have "r = None" "w' = w2" by simp_all
      with Inl p1 p2 Inr show ?thesis by (auto intro: made)
    next
      case mk: (Inl e)
      show ?thesis
      proof (cases "\<exists>m. os_Stat w1 path = Inr (Directory m)")
        case True
        then obtain m where m: "os_Stat w1 path = Inr (Directory m)" by blast
        with res None mk have "r = None" "w' = w1" by simp_all
        with Inl p1 p2 mk m show ?thesis by (auto intro: there)
      next
        case False
        with res None mk have "r = Some e" "w' = w1"
          by (auto split: sum.splits Inode.splits)
        with Inl p1 p2 mk show ?thesis by (auto intro: mkdir_failed)
      qed
    qed
  qed
qed

lemma MkdirAll_made: "os_MkdirAll path perm w = (r, w') \<Longrightarrow> made_dirs perm w w'"
proof (induction path perm w arbitrary: r w' rule: os_MkdirAll.induct)
  case (1 path perm w)
  from "1.prems" show ?case
  proof (cases rule: MkdirAll_cases)
    case fast_dir
    then show ?thesis by (simp add: made_dirs_refl)
  next
    case fast_file
    then show ?thesis by (simp add: made_dirs_refl)
  next
    case parent_failed
    then show ?thesis using "1.IH" by blast
  next
    case (made e0 w1)
    have "made_dirs perm w w1"
    proof (cases "parent_of path = []")
      case True
      with made show ?thesis by (simp add: made_dirs_refl)
    next
      case False
      with made "1.IH" show ?thesis by blast
    qed
    moreover from made have "made_dirs perm w1 w'" by (simp add: Mkdir_made)
    ultimately show ?thesis by (rule made_dirs_trans)
  next
    case there
    then show ?thesis using "1.IH" by (cases "parent_of path = []") (auto simp: made_dirs_refl)
  next
    case mkdir_failed
    then show ?thesis using "1.IH" by (cases "parent_of path = []") (auto simp: made_dirs_refl)
  qed
qed

lemma MkdirAll_stat:
  assumes "os_MkdirAll path perm w = (None, w')"
  shows "\<exists>m. os_Stat w' path = Inr (Directory m)"
  using assms
proof (cases rule: MkdirAll_cases)
  case (made e0 w1)
  then show ?thesis using Mkdir_stat by blast
qed auto

lemma owner_only: "(448 AND NOT u) AND (63 :: 32 word) = 0"
proof -
  have "(448 AND NOT u) AND (63 :: 32 word) = (448 AND 63) AND NOT u"
    by (simp add: ac_simps)
  also have "(448 :: 32 word) AND 63 = 0" by simp
  finally show ?thesis by simp
qed

subsection \<open>OpenFile, Copy, RemoveAll and TempDir\<close>

lemma OpenFile_result:
  assumes "os_OpenFile name perm w = Inr (h, w')"
  shows "locate w name = Inr h \<and> \<not> trailing_sep name \<and>
         ((\<exists>m c. inodes w h = Some (File m c) \<and> w' = w) \<or>
          (inodes w h = None \<and> w' = w\<lparr>inodes := (inodes w)(h \<mapsto> File (perm AND NOT (umask w)) [])\<rparr>))"
  using assms
  by (auto simp: os_OpenFile_def split: sum.splits option.splits Inode.splits if_splits)

lemma OpenFile_extends: "os_OpenFile name perm w = Inr (h, w') \<Longrightarrow> extends w w'"
  by (drule OpenFile_result) (auto simp: extends_def only_fs_def)

lemma io_Copy_failed: "io_Copy h contents w = (Some e, w') \<Longrightarrow> w' = w"
  by (auto simp: io_Copy_def write_at_start_def split: Reader.splits Inode.splits option.splits)

lemma io_Copy_Buffer:
  assumes "io_Copy h (Buffer bs) w = (None, w')"
  shows "\<exists>m old. inodes w h = Some (File m old) \<and>
           w' = w\<lparr>inodes := (inodes w)(h \<mapsto> File m (bs @ drop (length bs) old))\<rparr>"
  using assms
  by (auto simp: io_Copy_def write_at_start_def split: Inode.splits option.splits)

lemma io_Copy_keeps_dirs: "io_Copy h contents w = (r, w') \<Longrightarrow> keeps_dirs w w' \<and> only_fs w w'"
  by (auto simp: io_Copy_def write_at_start_def keeps_dirs_def only_fs_def
           split: Reader.splits Inode.splits option.splits)

lemma io_Copy_written:
  assumes "io_Copy h contents w = (None, w')"
  shows "\<exists>m old bs. reader_bytes contents = Some bs \<and> inodes w h = Some (File m old) \<and>
           w' = w\<lparr>inodes := (inodes w)(h \<mapsto> File m (bs @ drop (length bs) old))\<rparr>"
  using assms
  by (auto simp: io_Copy_def write_at_start_def split: Reader.splits Inode.splits option.splits)

lemma io_Copy_keeps_files: "io_Copy h contents w = (r, w') \<Longrightarrow> keeps_files w w'"
  by (auto simp: io_Copy_def write_at_start_def keeps_files_def
           split: Reader.splits Inode.splits option.splits)

lemma RemoveAll_only_fs: "os_RemoveAll path w = (r, w') \<Longrightarrow> only_fs w w'"
  by (auto simp: os_RemoveAll_def only_fs_def split: if_splits sum.splits)

lemma RemoveAll_removes:
  assumes "normal_name (final_elem path)" and "locate w path = Inr a"
  shows "os_RemoveAll path w = (None, w\<lparr>inodes := (\<lambda>q. if prefix a q then None else inodes w q)\<rparr>)"
  using assms normal_final[OF assms(1)] by (simp add: os_RemoveAll_def)

lemma RemoveAll_removed:
  assumes "normal_name (final_elem path)" and "locate w path = Inr a"
  shows "inodes (snd (os_RemoveAll path w)) = (\<lambda>q. if prefix a q then None else inodes w q) \<and>
         only_fs w (snd (os_RemoveAll path w))"
  using RemoveAll_removes[OF assms] by (simp add: only_fs_def)

lemma TempDir_result:
  "ioutil_TempDir pattern rnd w = (Inr dir, w0) \<Longrightarrow> os_Mkdir dir 448 w = Inr w0"
  by (auto simp: ioutil_TempDir_def Let_def split: if_splits sum.splits)

section \<open>Properties of the package's functions\<close>

subsection \<open>NewTemporary\<close>

lemma mkdir_each_made: "mkdir_each ds w = (r, w') \<Longrightarrow> made_dirs 448 w w'"
proof (induction ds arbitrary: w)
  case Nil
  then show ?case by (simp add: made_dirs_refl)
next
  case (Cons d ds)
  obtain r1 w1 where m: "os_MkdirAll d 448 w = (r1, w1)" by (cases "os_MkdirAll d 448 w")
  then have m1: "made_dirs 448 w w1" by (rule MkdirAll_made)
  show ?case
  proof (cases r1)
    case None
    with Cons.prems m have "mkdir_each ds w1 = (r, w')" by simp
    then have "made_dirs 448 w1 w'" by (rule Cons.IH)
    with m1 show ?thesis by (rule made_dirs_trans)
  next
    case (Some e)
    with Cons.prems m have "w' = w1" by simp
    with m1 show ?thesis by simp
  qed
qed

lemma mkdir_each_ok:
  "mkdir_each ds w = (None, w') \<Longrightarrow> d \<in> set ds \<Longrightarrow> \<exists>m. os_Stat w' d = Inr (Directory m)"
proof (induction ds arbitrary: w)
  case Nil
  then show ?case by simp
next
  case (Cons x ds)
  obtain r1 w1 where m: "os_MkdirAll x 448 w = (r1, w1)" by (cases "os_MkdirAll x 448 w")
  with Cons.prems(1) have r1: "r1 = None" and rest: "mkdir_each ds w1 = (None, w')"
    by (auto split: option.splits)
  show ?case
  proof (cases "d = x")
    case True
    from m r1 obtain md where "os_Stat w1 x = Inr (Directory md)" using MkdirAll_stat by blast
    moreover from rest have "keeps_dirs w1 w'"
      using mkdir_each_made made_dirs_def extends_keeps_dirs by blast
    ultimately show ?thesis using True stat_dir_mono by blast
  next
    case False
    with Cons.prems(2) have "d \<in> set ds" by simp
    with rest show ?thesis by (rule Cons.IH)
  qed
qed

lemma mkdir_each_failed:
  "mkdir_each ds w = (Some err, w') \<Longrightarrow>
   \<exists>ds1 d ds2 w1 e. ds = ds1 @ d # ds2 \<and> mkdir_each ds1 w = (None, w1) \<and>
      os_MkdirAll d 448 w1 = (Some e, w') \<and> err = FailedToCreate d e"
proof (induction ds arbitrary: w)
  case Nil
  then show ?case by simp
next
  case (Cons x ds)
  obtain r1 w1 where m: "os_MkdirAll x 448 w = (r1, w1)" by (cases "os_MkdirAll x 448 w")
  show ?case
  proof (cases r1)
    case (Some e)
    with Cons.prems m have "err = FailedToCreate x e" "w' = w1" by simp_all
    with m Some have "x # ds = [] @ x # ds \<and> mkdir_each [] w = (None, w) \<and>
      os_MkdirAll x 448 w = (Some e, w') \<and> err = FailedToCreate x e" by simp
    then show ?thesis by blast
  next
    case None
    with Cons.prems m have "mkdir_each ds w1 = (Some err, w')" by simp
    from Cons.IH[OF this] obtain ds1 d ds2 w2 e where
      *: "ds = ds1 @ d # ds2" "mkdir_each ds1 w1 = (None, w2)"
         "os_MkdirAll d 448 w2 = (Some e, w')" "err = FailedToCreate d e" by blast
    from * m None have "x # ds = (x # ds1) @ d # ds2 \<and> mkdir_each (x # ds1) w = (None, w2) \<and>
      os_MkdirAll d 448 w2 = (Some e, w') \<and> err = FailedToCreate d e" by simp
    then show ?thesis by blast
  qed
qed

lemma mkdir_each_append:
  "mkdir_each (xs @ ys) w =
     (case mkdir_each xs w of (None, w1) \<Rightarrow> mkdir_each ys w1 | (Some e, w1) \<Rightarrow> (Some e, w1))"
  by (induction xs arbitrary: w) (auto split: prod.splits option.splits)

lemma NewTemporary_unfold:
  "NewTemporary dir u w =
     (case mkdir_each [filepath_Join [dir, ''src''], filepath_Join [dir, ''pkg''], filepath_Join [dir, ''bin'']] w of
        (Some err, w1) \<Rightarrow> (Inl err, w1)
      | (None, w1) \<Rightarrow>
          if u then
            (if GOPATH_env w1 \<noteq> GOPATH_build w1
             then (Inl (GopathMismatch (GOPATH_env w1) (GOPATH_build w1)), w1)
             else (Inr ((new_t dir True)\<lparr>Orig := GOPATH_build w1\<rparr>),
                   w1\<lparr>GOPATH_build := dir @ '':'' @ GOPATH_build w1,
                       GOPATH_env := dir @ '':'' @ GOPATH_build w1\<rparr>))
          else (Inr (new_t dir False), w1))"
  by (simp add: NewTemporary_def Let_def new_t_def os_Getenv_GOPATH_def os_Setenv_GOPATH_def
           del: mkdir_each.simps split: prod.splits option.splits)

lemma NewTemporary_cases:
  assumes "NewTemporary dir u w = (r, w')"
  obtains
    (mkdir_failed) err where
      "mkdir_each [filepath_Join [dir, ''src''], filepath_Join [dir, ''pkg''], filepath_Join [dir, ''bin'']] w = (Some err, w')"
      "r = Inl err"
  | (plain) 
      "mkdir_each [filepath_Join [dir, ''src''], filepath_Join [dir, ''pkg''], filepath_Join [dir, ''bin'']] w = (None, w')"
      "\<not> u" "r = Inr (new_t dir False)"
  | (mismatch) 
      "mkdir_each [filepath_Join [dir, ''src''], filepath_Join [dir, ''pkg''], filepath_Join [dir, ''bin'']] w = (None, w')"
      "u" "GOPATH_env w \<noteq> GOPATH_build w" "r = Inl (GopathMismatch (GOPATH_env w) (GOPATH_build w))"
  | (patched) w1 where
      "mkdir_each [filepath_Join [dir, ''src''], filepath_Join [dir, ''pkg''], filepath_Join [dir, ''bin'']] w = (None, w1)"
      "u" "GOPATH_env w = GOPATH_build w" "r = Inr ((new_t dir True)\<lparr>Orig := GOPATH_build w\<rparr>)"
      "w' = w1\<lparr>GOPATH_build := dir @ '':'' @ GOPATH_build w, GOPATH_env := dir @ '':'' @ GOPATH_build w\<rparr>"
proof -
  let ?ds = "[filepath_Join [dir, ''src''], filepath_Join [dir, ''pkg''], filepath_Join [dir, ''bin'']]"
  obtain r1 w1 where m: "mkdir_each ?ds w = (r1, w1)" by (cases "mkdir_each ?ds w")
  then have "made_dirs 448 w w1" by (rule mkdir_each_made)
  then have f: "GOPATH_env w1 = GOPATH_env w" "GOPATH_build w1 = GOPATH_build w"
    by (simp_all add: made_dirs_def extends_def only_fs_fields)
  show ?thesis
  proof (cases r1)
    case (Some err)
    with assms m have "r = Inl err" "w' = w1" by (simp_all add: NewTemporary_unfold del: mkdir_each.simps)
    with m Some show ?thesis by (auto intro: mkdir_failed)
  next
    case None
    show ?thesis
    proof (cases u)
      case False
      with assms m None have "r = Inr (new_t dir False)" "w' = w1"
        by (simp_all add: NewTemporary_unfold del: mkdir_each.simps)
      with m None False show ?thesis by (auto intro: plain)
    next
      case True
      show ?thesis
      proof (cases "GOPATH_env w = GOPATH_build w")
        case False
        with assms m None True f have "r = Inl (GopathMismatch (GOPATH_env w) (GOPATH_build w))" "w' = w1"
          by (simp_all add: NewTemporary_unfold del: mkdir_each.simps)
        with m None True False show ?thesis by (auto intro: mismatch)
      next
        case eq: True
        with assms m None True f have "r = Inr ((new_t dir True)\<lparr>Orig := GOPATH_build w\<rparr>)"
          "w' = w1\<lparr>GOPATH_build := dir @ '':'' @ GOPATH_build w, GOPATH_env := dir @ '':'' @ GOPATH_build w\<rparr>"
          by (simp_all add: NewTemporary_unfold del: mkdir_each.simps)
        with m None True eq show ?thesis by (auto intro: patched)
      qed
    qed
  qed
qed

text \<open>
  The copy of \<^verbatim>\<open>NewTemporary\<close> in \<^verbatim>\<open>src/unnamed/part_000\<close> puts the directory behind
  the old value, where the one in \<^verbatim>\<open>src/fakegopath.go\<close> puts it in front.
\<close>

lemma NewTemporary_part000_appends:
  assumes "NewTemporary_part000 dir True w = (Inr t, w')"
  shows "GOPATH_env w' = GOPATH_env w @ '':'' @ dir \<and>
         GOPATH_build w' = GOPATH_env w @ '':'' @ dir \<and> Orig t = GOPATH_env w"
proof -
  let ?ds = "[filepath_Join [dir, ''src''], filepath_Join [dir, ''pkg''], filepath_Join [dir, ''bin'']]"
  obtain r1 w1 where m: "mkdir_each ?ds w = (r1, w1)" by (cases "mkdir_each ?ds w")
  then have "made_dirs 448 w w1" by (rule mkdir_each_made)
  then have f: "GOPATH_env w1 = GOPATH_env w" "GOPATH_build w1 = GOPATH_build w"
    by (simp_all add: made_dirs_def extends_def only_fs_fields)
  from assms m f show ?thesis
    by (auto simp: NewTemporary_part000_def Let_def os_Getenv_GOPATH_def os_Setenv_GOPATH_def
             simp del: mkdir_each.simps split: option.splits if_splits)
qed

subsection \<open>WriteFile and CopyFile\<close>

lemma WriteFile_cases:
  assumes "WriteFile t file contents w = (r, w')"
  obtains
    (mkdir_failed) err where
      "os_MkdirAll (filepath_Dir (filepath_Join [Temporary_part000.Src t, file])) 448 w = (Some err, w')"
      "r = Some (FailedToCreateDir (filepath_Dir (filepath_Join [Temporary_part000.Src t, file])) err)"
  | (open_failed) err where
      "os_MkdirAll (filepath_Dir (filepath_Join [Temporary_part000.Src t, file])) 448 w = (None, w')"
      "os_OpenFile (filepath_Join [Temporary_part000.Src t, file]) 384 w' = Inl err"
      "r = Some (CouldntOpen (filepath_Join [Temporary_part000.Src t, file]) err)"
  | (copy_failed) w1 h err where
      "os_MkdirAll (filepath_Dir (filepath_Join [Temporary_part000.Src t, file])) 448 w = (None, w1)"
      "os_OpenFile (filepath_Join [Temporary_part000.Src t, file]) 384 w1 = Inr (h, w')"
      "io_Copy h contents w' = (Some err, w')"
      "r = Some (CopyFailed err)"
  | (written) w1 h w2 where
      "os_MkdirAll (filepath_Dir (filepath_Join [Temporary_part000.Src t, file])) 448 w = (None, w1)"
      "os_OpenFile (filepath_Join [Temporary_part000.Src t, file]) 384 w1 = Inr (h, w2)"
      "io_Copy h contents w2 = (None, w')"
      "r = None"
proof -
  let ?full = "filepath_Join [Temporary_part000.Src t, file]"
  let ?dir = "filepath_Dir ?full"
  obtain r1 w1 where m: "os_MkdirAll ?dir 448 w = (r1, w1)" by (cases "os_MkdirAll ?dir 448 w")
  show ?thesis
  proof (cases r1)
    case (Some err)
    with assms m have "r = Some (FailedToCreateDir ?dir err)" "w' = w1"
      by (simp_all add: WriteFile_def Let_def)
    with m Some show ?thesis by (auto intro: mkdir_failed)
  next
    case None
    show ?thesis
    proof (cases "os_OpenFile ?full 384 w1")
      case (Inl err)
      with assms m None have "r = Some (CouldntOpen ?full err)" "w' = w1"
        by (simp_all add: WriteFile_def Let_def)
      with m None Inl show ?thesis by (auto intro: open_failed)
    next
      case (Inr hw)
      obtain h w2 where hw: "hw = (h, w2)" by (cases hw)
      obtain r3 w3 where c: "io_Copy h contents w2 = (r3, w3)" by (cases "io_Copy h contents w2")
      show ?thesis
      proof (cases r3)
        case (Some err)
        with assms m None Inr hw c have "r = Some (CopyFailed err)" "w' = w3"
          by (simp_all add: WriteFile_def Let_def)
        moreover from c Some have "w3 = w2" by (simp add: io_Copy_failed)
        ultimately show ?thesis using m None Inr hw c Some by (auto intro: copy_failed)
      next
        case n3: None
        with assms m None Inr hw c have "r = None" "w' = w3"
          by (simp_all add: WriteFile_def Let_def)
        with m None Inr hw c n3 show ?thesis by (auto intro: written)
      qed
    qed
  qed
qed

lemma WriteFile_failed_extends:
  assumes "WriteFile t file contents w = (Some err, w')"
  shows "extends w w'"
  using assms
proof (cases rule: WriteFile_cases)
  case mkdir_failed
  then show ?thesis using MkdirAll_made made_dirs_def by blast
next
  case open_failed
  then show ?thesis using MkdirAll_made made_dirs_def by blast
next
  case (copy_failed w1 h err)
  from copy_failed(1) have "extends w w1" using MkdirAll_made made_dirs_def by blast
  moreover from copy_failed(2) have "extends w1 w'" by (rule OpenFile_extends)
  ultimately show ?thesis by (rule extends_trans)
qed simp

lemma WriteFile_keeps_dirs:
  assumes "WriteFile t file contents w = (r, w')"
  shows "keeps_dirs w w' \<and> only_fs w w'"
proof -
  have md: "keeps_dirs a b \<and> only_fs a b" if "os_MkdirAll p 448 a = (x, b)" for p a b x
    using MkdirAll_made[OF that] by (simp add: made_dirs_def extends_keeps_dirs extends_def)
  have op: "keeps_dirs a b \<and> only_fs a b" if "os_OpenFile p 384 a = Inr (h, b)" for p a b h
    using OpenFile_extends[OF that] by (simp add: extends_keeps_dirs extends_def)
  from assms show ?thesis
  proof (cases rule: WriteFile_cases)
    case mkdir_failed
    then show ?thesis using md by blast
  next
    case open_failed
    then show ?thesis using md by blast
  next
    case (copy_failed w1 h err)
    with md[OF copy_failed(1)] op[OF copy_failed(2)] show ?thesis
      using keeps_dirs_trans only_fs_trans by blast
  next
    case (written w1 h w2)
    with md[OF written(1)] op[OF written(2)] io_Copy_keeps_dirs[OF written(3)] show ?thesis
      using keeps_dirs_trans only_fs_trans by blast
  qed
qed

lemma WriteFile_written:
  assumes "WriteFile t file (Buffer bs) w = (None, w')"
  obtains h w1 where
    "os_MkdirAll (filepath_Dir (filepath_Join [Temporary_part000.Src t, file])) 448 w = (None, w1)"
    "locate w' (filepath_Join [Temporary_part000.Src t, file]) = Inr h"
    "\<not> trailing_sep (filepath_Join [Temporary_part000.Src t, file])"
    "(\<exists>m old. inodes w1 h = Some (File m old) \<and>
        inodes w' = (inodes w1)(h \<mapsto> File m (bs @ drop (length bs) old))) \<or>
     (inodes w1 h = None \<and> inodes w' = (inodes w1)(h \<mapsto> File (384 AND NOT (umask w)) bs))"
  using assms
proof (cases rule: WriteFile_cases)
  case (written w1 h w2)
  let ?full = "filepath_Join [Temporary_part000.Src t, file]"
  from MkdirAll_made[OF written(1)] have u: "umask w1 = umask w"
    by (simp add: made_dirs_def extends_def only_fs_fields)
  from OpenFile_result[OF written(2)] have l1: "locate w1 ?full = Inr h" and ts: "\<not> trailing_sep ?full"
    and o: "(\<exists>m c. inodes w1 h = Some (File m c) \<and> w2 = w1) \<or>
          (inodes w1 h = None \<and> w2 = w1\<lparr>inodes := (inodes w1)(h \<mapsto> File (384 AND NOT (umask w1)) [])\<rparr>)"
    by simp_all
  from io_Copy_Buffer[OF written(3)] obtain m old where
    c: "inodes w2 h = Some (File m old)"
       "w' = w2\<lparr>inodes := (inodes w2)(h \<mapsto> File m (bs @ drop (length bs) old))\<rparr>" by blast
  have "keeps_dirs w1 w2" using written(2) by (intro extends_keeps_dirs OpenFile_extends)
  moreover have "keeps_dirs w2 w'" using io_Copy_keeps_dirs[OF written(3)] by simp
  ultimately have "keeps_dirs w1 w'" by (rule keeps_dirs_trans)
  then have l': "locate w' ?full = Inr h" using l1 by (rule locate_mono)
  from o c u have "(\<exists>m old. inodes w1 h = Some (File m old) \<and>
        inodes w' = (inodes w1)(h \<mapsto> File m (bs @ drop (length bs) old))) \<or>
     (inodes w1 h = None \<and> inodes w' = (inodes w1)(h \<mapsto> File (384 AND NOT (umask w)) bs))"
    by auto
  with written(1) l' ts show ?thesis by (rule that)
qed simp_all

lemma WriteFile_effect:
  assumes "WriteFile t file (Buffer bs) w = (None, w')"
  obtains h where
    "locate w' (filepath_Join [Temporary_part000.Src t, file]) = Inr h"
    "\<not> trailing_sep (filepath_Join [Temporary_part000.Src t, file])"
    "\<And>m old. inodes w h = Some (File m old) \<Longrightarrow>
        inodes w' h = Some (File m (bs @ drop (length bs) old))"
    "inodes w h = None \<Longrightarrow> inodes w' h = Some (File (384 AND NOT (umask w)) bs)"
    "\<And>q n. q \<noteq> h \<Longrightarrow> inodes w q = Some n \<Longrightarrow> inodes w' q = Some n"
    "\<And>q. q \<noteq> h \<Longrightarrow> inodes w q = None \<Longrightarrow>
        inodes w' q = None \<or> inodes w' q = Some (Directory (448 AND NOT (umask w)))"
  using assms
proof (cases rule: WriteFile_written)
  case (1 h w1)
  let ?full = "filepath_Join [Temporary_part000.Src t, file]"
  from MkdirAll_made[OF 1(1)] have md: "made_dirs 448 w w1" .
  then have keep: "\<And>q n. inodes w q = Some n \<Longrightarrow> inodes w1 q = Some n"
    and new: "\<And>q. inodes w q = None \<Longrightarrow>
        inodes w1 q = None \<or> inodes w1 q = Some (Directory (448 AND NOT (umask w)))"
    by (simp_all add: made_dirs_def extends_def)
  have a: "inodes w' h = Some (File m (bs @ drop (length bs) old))"
    if "inodes w h = Some (File m old)" for m old
    using keep[OF that] 1(4) by auto
  have b: "inodes w' h = Some (File (384 AND NOT (umask w)) bs)" if "inodes w h = None"
    using new[OF that] 1(4) by auto
  have c: "inodes w' q = inodes w1 q" if "q \<noteq> h" for q
    using 1(4) that by auto
  have d: "inodes w' q = Some n" if "q \<noteq> h" "inodes w q = Some n" for q n
    using c[OF that(1)] keep[OF that(2)] by simp
  have e: "inodes w' q = None \<or> inodes w' q = Some (Directory (448 AND NOT (umask w)))"
    if "q \<noteq> h" "inodes w q = None" for q
    using c[OF that(1)] new[OF that(2)] by simp
  show ?thesis
    by (rule that[of h]) (fact 1(2) 1(3) a b d e)+
qed

lemma WriteFile_dir:
  assumes "WriteFile t file contents w = (None, w')"
  shows "\<exists>m. os_Stat w' (filepath_Dir (filepath_Join [Temporary_part000.Src t, file])) = Inr (Directory m)"
  using assms
proof (cases rule: WriteFile_cases)
  case (written w1 h w2)
  from MkdirAll_stat[OF written(1)] obtain m where
    "os_Stat w1 (filepath_Dir (filepath_Join [Temporary_part000.Src t, file])) = Inr (Directory m)" by blast
  moreover have "keeps_dirs w1 w2" using written(2) by (intro extends_keeps_dirs OpenFile_extends)
  moreover have "keeps_dirs w2 w'" using io_Copy_keeps_dirs[OF written(3)] by simp
  ultimately show ?thesis using stat_dir_mono keeps_dirs_trans by blast
qed simp_all

lemma WriteFile_keeps_files:
  assumes "WriteFile t file contents w = (r, w')"
  shows "keeps_files w w'"
proof -
  have md: "keeps_files a b" if "os_MkdirAll p 448 a = (x, b)" for p a b x
    using MkdirAll_made[OF that] by (simp add: made_dirs_def extends_keeps_files)
  have op: "keeps_files a b" if "os_OpenFile p 384 a = Inr (h, b)" for p a b h
    using OpenFile_extends[OF that] by (rule extends_keeps_files)
  from assms show ?thesis
  proof (cases rule: WriteFile_cases)
    case mkdir_failed
    then show ?thesis by (intro md)
  next
    case open_failed
    then show ?thesis by (intro md)
  next
    case (copy_failed w1 h err)
    from md[OF copy_failed(1)] op[OF copy_failed(2)] show ?thesis by (rule keeps_files_trans)
  next
    case (written w1 h w2)
    from md[OF written(1)] op[OF written(2)] have "keeps_files w w2" by (rule keeps_files_trans)
    then show ?thesis using io_Copy_keeps_files[OF written(3)] by (rule keeps_files_trans)
  qed
qed

lemma WriteFile_puts:
  assumes "WriteFile t file contents w = (None, w')"
  obtains h bs m c where
    "reader_bytes contents = Some bs"
    "locate w' (filepath_Join [Temporary_part000.Src t, file]) = Inr h"
    "\<not> trailing_sep (filepath_Join [Temporary_part000.Src t, file])"
    "inodes w' h = Some (File m c)"
    "take (length bs) c = bs"
    "inodes w h = None \<Longrightarrow> c = bs \<and> m = 384 AND NOT (umask w)"
    "\<And>q n. q \<noteq> h \<Longrightarrow> inodes w q = Some n \<Longrightarrow> inodes w' q = Some n"
  using assms
proof (cases rule: WriteFile_cases)
  case (written w1 h w2)
  let ?full = "filepath_Join [Temporary_part000.Src t, file]"
  from MkdirAll_made[OF written(1)] have md: "made_dirs 448 w w1" .
  then have u: "umask w1 = umask w"
    and keep: "\<And>q n. inodes w q = Some n \<Longrightarrow> inodes w1 q = Some n"
    and new: "\<And>q. inodes w q = None \<Longrightarrow>
        inodes w1 q = None \<or> inodes w1 q = Some (Directory (448 AND NOT (umask w)))"
    by (simp_all add: made_dirs_def extends_def only_fs_fields)
  from OpenFile_result[OF written(2)] have l1: "locate w1 ?full = Inr h" and ts: "\<not> trailing_sep ?full"
    and o: "(\<exists>m c. inodes w1 h = Some (File m c) \<and> w2 = w1) \<or>
          (inodes w1 h = None \<and> w2 = w1\<lparr>inodes := (inodes w1)(h \<mapsto> File (384 AND NOT (umask w1)) [])\<rparr>)"
    by simp_all
  from io_Copy_written[OF written(3)] obtain m old bs where
    c: "reader_bytes contents = Some bs" "inodes w2 h = Some (File m old)"
       "w' = w2\<lparr>inodes := (inodes w2)(h \<mapsto> File m (bs @ drop (length bs) old))\<rparr>" by blast
  have "keeps_dirs w1 w2" using written(2) by (intro extends_keeps_dirs OpenFile_extends)
  moreover have "keeps_dirs w2 w'" using io_Copy_keeps_dirs[OF written(3)] by simp
  ultimately have "keeps_dirs w1 w'" by (rule keeps_dirs_trans)
  then have l': "locate w' ?full = Inr h" using l1 by (rule locate_mono)
  have f: "inodes w' h = Some (File m (bs @ drop (length bs) old))" using c(3) by simp
  have p: "take (length bs) (bs @ drop (length bs) old) = bs" by simp
  have fresh: "bs @ drop (length bs) old = bs \<and> m = 384 AND NOT (umask w)" if "inodes w h = None"
    using new[OF that] o c(2) u by auto
  have other: "inodes w' q = Some n" if "q \<noteq> h" "inodes w q = Some n" for q n
    using keep[OF that(2)] o c(3) that(1) by auto
  show ?thesis
    by (rule that[of bs h m "bs @ drop (length bs) old"]) (fact c(1) l' ts f p fresh other)+
qed simp_all

lemma CopyFile_failed_extends:
  assumes "CopyFile t dest src w = (Some err, w')"
  shows "extends w w'"
proof (cases "os_Open src w")
  case (Inl e)
  with assms show ?thesis by (simp add: CopyFile_def extends_refl)
next
  case (Inr input)
  with assms have "WriteFile t dest input w = (Some err, w')" by (simp add: CopyFile_def)
  then show ?thesis by (rule WriteFile_failed_extends)
qed

lemma CopyFile_keeps_dirs:
  assumes "CopyFile t dest src w = (r, w')"
  shows "keeps_dirs w w' \<and> only_fs w w'"
proof (cases "os_Open src w")
  case (Inl e)
  with assms show ?thesis by (simp add: CopyFile_def keeps_dirs_refl only_fs_refl)
next
  case (Inr input)
  with assms have "WriteFile t dest input w = (r, w')" by (simp add: CopyFile_def)
  then show ?thesis by (rule WriteFile_keeps_dirs)
qed

subsection \<open>Copy\<close>

lemma Copy_single:
  "Copy t [f] w =
     (case Content f of
        Some content \<Rightarrow> WriteFile t (Dest f) (Buffer content) w
      | None \<Rightarrow> CopyFile t (Dest f) (SourceFile.Src f) w)"
  by (auto split: option.splits prod.splits)

lemma Copy_Cons:
  "Copy t (f # fs) w =
     (case Copy t [f] w of (None, w1) \<Rightarrow> Copy t fs w1 | (Some e, w1) \<Rightarrow> (Some e, w1))"
  by (auto split: option.splits prod.splits)

declare Copy.simps(2) [simp del]

lemma Copy_append:
  "Copy t (xs @ ys) w =
     (case Copy t xs w of (None, w1) \<Rightarrow> Copy t ys w1 | (Some e, w1) \<Rightarrow> (Some e, w1))"
proof (induction xs arbitrary: w)
  case Nil
  then show ?case by simp
next
  case (Cons x xs)
  have "Copy t ((x # xs) @ ys) w =
      (case Copy t [x] w of (None, w1) \<Rightarrow> Copy t (xs @ ys) w1 | (Some e, w1) \<Rightarrow> (Some e, w1))"
    using Copy_Cons[of t x "xs @ ys" w] by simp
  also have "\<dots> = (case Copy t (x # xs) w of (None, w1) \<Rightarrow> Copy t ys w1 | (Some e, w1) \<Rightarrow> (Some e, w1))"
    unfolding Copy_Cons[of t x xs w] Cons.IH
    by (cases "Copy t [x] w") (auto split: option.splits prod.splits)
  finally show ?case .
qed

lemma Copy_single_failed_extends:
  assumes "Copy t [f] w = (Some err, w')"
  shows "extends w w'"
proof (cases "Content f")
  case None
  with assms have "CopyFile t (Dest f) (SourceFile.Src f) w = (Some err, w')"
    by (simp add: Copy_single)
  then show ?thesis by (rule CopyFile_failed_extends)
next
  case (Some c)
  with assms have "WriteFile t (Dest f) (Buffer c) w = (Some err, w')"
    by (simp add: Copy_single)
  then show ?thesis by (rule WriteFile_failed_extends)
qed

lemma Copy_keeps_dirs: "Copy t fs w = (r, w') \<Longrightarrow> keeps_dirs w w' \<and> only_fs w w'"
proof (induction fs arbitrary: w)
  case Nil
  then show ?case by (simp add: keeps_dirs_refl only_fs_refl)
next
  case (Cons f fs)
  obtain r1 w1 where s: "Copy t [f] w = (r1, w1)" by (cases "Copy t [f] w")
  have k1: "keeps_dirs w w1 \<and> only_fs w w1"
  proof (cases "Content f")
    case None
    with s have "CopyFile t (Dest f) (SourceFile.Src f) w = (r1, w1)" by (simp add: Copy_single)
    then show ?thesis by (rule CopyFile_keeps_dirs)
  next
    case (Some c)
    with s have "WriteFile t (Dest f) (Buffer c) w = (r1, w1)" by (simp add: Copy_single)
    then show ?thesis by (rule WriteFile_keeps_dirs)
  qed
  show ?case
  proof (cases r1)
    case None
    with Cons.prems s have "Copy t fs w1 = (r, w')" by (simp add: Copy_Cons[of t f fs w])
    from Cons.IH[OF this] k1 show ?thesis using keeps_dirs_trans only_fs_trans by blast
  next
    case (Some e)
    with Cons.prems s have "w' = w1" by (simp add: Copy_Cons[of t f fs w])
    with k1 show ?thesis by simp
  qed
qed

lemma Copy_single_keeps_files:
  assumes "Copy t [e] w = (r, w')"
  shows "keeps_files w w'"
proof (cases "Content e")
  case (Some content)
  with assms have "WriteFile t (Dest e) (Buffer content) w = (r, w')" by (simp add: Copy_single)
  then show ?thesis by (rule WriteFile_keeps_files)
next
  case None
  with assms have c: "CopyFile t (Dest e) (SourceFile.Src e) w = (r, w')" by (simp add: Copy_single)
  show ?thesis
  proof (cases "os_Open (SourceFile.Src e) w")
    case (Inl x)
    with c show ?thesis by (simp add: CopyFile_def keeps_files_refl)
  next
    case (Inr input)
    with c have "WriteFile t (Dest e) input w = (r, w')" by (simp add: CopyFile_def)
    then show ?thesis by (rule WriteFile_keeps_files)
  qed
qed

lemma Copy_keeps_files: "Copy t fs w = (r, w') \<Longrightarrow> keeps_files w w'"
proof (induction fs arbitrary: w)
  case Nil
  then show ?case by (simp add: keeps_files_refl)
next
  case (Cons f fs)
  obtain r1 w1 where s: "Copy t [f] w = (r1, w1)" by (cases "Copy t [f] w")
  then have k1: "keeps_files w w1" by (rule Copy_single_keeps_files)
  show ?case
  proof (cases r1)
    case None
    with Cons.prems s have "Copy t fs w1 = (r, w')" by (simp add: Copy_Cons[of t f fs w])
    from k1 Cons.IH[OF this] show ?thesis by (rule keeps_files_trans)
  next
    case (Some e)
    with Cons.prems s have "w' = w1" by (simp add: Copy_Cons[of t f fs w])
    with k1 show ?thesis by simp
  qed
qed

lemma Copy_single_puts:
  assumes "Copy t [e] w = (None, w')"
  obtains h bs m c where
    "entry_bytes e w = Some bs"
    "locate w' (filepath_Join [Temporary_part000.Src t, Dest e]) = Inr h"
    "\<not> trailing_sep (filepath_Join [Temporary_part000.Src t, Dest e])"
    "inodes w' h = Some (File m c)"
    "take (length bs) c = bs"
    "inodes w h = None \<Longrightarrow> c = bs \<and> m = 384 AND NOT (umask w)"
    "\<And>q n. q \<noteq> h \<Longrightarrow> inodes w q = Some n \<Longrightarrow> inodes w' q = Some n"
proof -
  obtain input where i: "WriteFile t (Dest e) input w = (None, w')"
    and b: "entry_bytes e w = reader_bytes input"
  proof (cases "Content e")
    case (Some content)
    with assms have "WriteFile t (Dest e) (Buffer content) w = (None, w')" by (simp add: Copy_single)
    moreover from Some have "entry_bytes e w = reader_bytes (Buffer content)"
      by (simp add: entry_bytes_def)
    ultimately show ?thesis by (rule that)
  next
    case None
    with assms have c: "CopyFile t (Dest e) (SourceFile.Src e) w = (None, w')" by (simp add: Copy_single)
    show ?thesis
    proof (cases "os_Open (SourceFile.Src e) w")
      case (Inl x)
      with c show ?thesis by (simp add: CopyFile_def)
    next
      case (Inr input)
      with c have "WriteFile t (Dest e) input w = (None, w')" by (simp add: CopyFile_def)
      moreover from None Inr have "entry_bytes e w = reader_bytes input"
        by (auto simp: entry_bytes_def os_Open_def split: sum.splits Inode.splits)
      ultimately show ?thesis by (rule that)
    qed
  qed
  from i show ?thesis
  proof (cases rule: WriteFile_puts)
    case (1 h bs m c)
    show ?thesis
      by (rule that[of bs h m c]) (use 1 b in simp_all)
  qed
qed

lemma Copy_untouched:
  assumes "Copy t ys w = (None, w')"
    and "\<forall>e \<in> set ys. locate w' (filepath_Join [Temporary_part000.Src t, Dest e]) \<noteq> Inr h"
    and "inodes w h = Some n"
  shows "inodes w' h = Some n"
  using assms
proof (induction ys arbitrary: w)
  case Nil
  then show ?case by simp
next
  case (Cons y ys)
  obtain r1 w1 where s: "Copy t [y] w = (r1, w1)" by (cases "Copy t [y] w")
  with Cons.prems(1) have r1: "r1 = None" and rest: "Copy t ys w1 = (None, w')"
    by (auto simp: Copy_Cons[of t y ys w] split: option.splits)
  from s r1 have s': "Copy t [y] w = (None, w1)" by simp
  from Copy_keeps_dirs[OF rest] have k: "keeps_dirs w1 w'" by simp
  from s' have "inodes w1 h = Some n"
  proof (cases rule: Copy_single_puts)
    case (1 h' bs m c)
    from k 1(2) have "locate w' (filepath_Join [Temporary_part000.Src t, Dest y]) = Inr h'"
      by (rule locate_mono)
    with Cons.prems(2) have "h \<noteq> h'" by auto
    from 1(7)[OF this Cons.prems(3)] show ?thesis .
  qed
  moreover from Cons.prems(2) have
    "\<forall>e \<in> set ys. locate w' (filepath_Join [Temporary_part000.Src t, Dest e]) \<noteq> Inr h" by simp
  ultimately show ?case using Cons.IH[OF rest] by blast
qed

lemma Copy_split:
  assumes "Copy t (xs @ e # ys) w = (None, w1)"
  obtains wa wb where "Copy t xs w = (None, wa)" "Copy t [e] wa = (None, wb)" "Copy t ys wb = (None, w1)"
proof -
  obtain ra wa where a: "Copy t xs w = (ra, wa)" by (cases "Copy t xs w")
  with assms have ra: "ra = None" and r: "Copy t (e # ys) wa = (None, w1)"
    by (auto simp: Copy_append[of t xs "e # ys" w] split: option.splits)
  obtain rb wb where b: "Copy t [e] wa = (rb, wb)" by (cases "Copy t [e] wa")
  with r have rb: "rb = None" and y: "Copy t ys wb = (None, w1)"
    by (auto simp: Copy_Cons[of t e ys wa] split: option.splits)
  from a ra b rb y show ?thesis by (auto intro: that)
qed

subsection \<open>Reset and NewTemporaryWithFiles\<close>

lemma Reset_gopath:
  "update t \<Longrightarrow> GOPATH_env (Reset t w) = Orig t \<and> GOPATH_build (Reset t w) = Orig t"
proof -
  assume u: "update t"
  let ?w1 = "os_Setenv_GOPATH (Orig t) (w\<lparr>GOPATH_build := Orig t\<rparr>)"
  have g: "GOPATH_env ?w1 = Orig t" "GOPATH_build ?w1 = Orig t"
    by (simp_all add: os_Setenv_GOPATH_def)
  show ?thesis
  proof (cases "deleteDir t")
    case False
    with u g show ?thesis by (simp add: Reset_def)
  next
    case True
    obtain r w2 where rm: "os_RemoveAll (Path t) ?w1 = (r, w2)"
      by (cases "os_RemoveAll (Path t) ?w1")
    then have "only_fs ?w1 w2" by (rule RemoveAll_only_fs)
    then have "GOPATH_env w2 = GOPATH_env ?w1" "GOPATH_build w2 = GOPATH_build ?w1"
      by (simp_all add: only_fs_fields)
    with g have g2: "GOPATH_env w2 = Orig t" "GOPATH_build w2 = Orig t" by simp_all
    from True u rm have "Reset t w = (case r of Some err \<Rightarrow> w2\<lparr>logged := logged w2 @ [err]\<rparr> | None \<Rightarrow> w2)"
      by (simp add: Reset_def)
    with g2 show ?thesis by (cases r) simp_all
  qed
qed

lemma Reset_keeps:
  "\<not> deleteDir t \<Longrightarrow> inodes (Reset t w) = inodes w"
  by (simp add: Reset_def os_Setenv_GOPATH_def)

lemma Reset_removes:
  assumes "deleteDir t" and "normal_name (final_elem (Path t))" and "locate w (Path t) = Inr a"
  shows "inodes (Reset t w) = (\<lambda>q. if prefix a q then None else inodes w q)"
proof -
  define w1 where "w1 = (if update t then os_Setenv_GOPATH (Orig t) (w\<lparr>GOPATH_build := Orig t\<rparr>) else w)"
  have same: "inodes w1 = inodes w" "cwd w1 = cwd w"
    by (simp_all add: w1_def os_Setenv_GOPATH_def)
  from assms(3) have "locate w1 (Path t) = Inr a" by (simp add: locate_same[OF same])
  from RemoveAll_removes[OF assms(2) this]
  have "os_RemoveAll (Path t) w1 = (None, w1\<lparr>inodes := (\<lambda>q. if prefix a q then None else inodes w1 q)\<rparr>)" .
  moreover have "Reset t w = (case os_RemoveAll (Path t) w1 of
              (Some err, w2) \<Rightarrow> w2\<lparr>logged := logged w2 @ [err]\<rparr>
            | (None, w2) \<Rightarrow> w2)"
    using assms(1) by (simp add: Reset_def w1_def)
  ultimately have "Reset t w = w1\<lparr>inodes := (\<lambda>q. if prefix a q then None else inodes w1 q)\<rparr>"
    by simp
  then show ?thesis unfolding same(1) by simp
qed

lemma Reset_refused:
  "deleteDir t \<and> (Path t = [] \<or> Path t = ''.'') \<Longrightarrow> inodes (Reset t w) = inodes w"
  by (auto simp: Reset_def os_RemoveAll_def endsWithDot_def os_Setenv_GOPATH_def)

lemma NewTemporaryWithFiles_unfold:
  assumes "ioutil_TempDir prefix' rnd w = (Inr dir, w0)"
  shows "NewTemporaryWithFiles prefix' files rnd w =
     (case NewTemporary dir True w0 of
        (Inl err, w1) \<Rightarrow> (Inl err, snd (os_RemoveAll dir w1))
      | (Inr t, w1) \<Rightarrow>
          (case Copy (t\<lparr>deleteDir := True\<rparr>) files w1 of
             (Some err, w2) \<Rightarrow> (Inl err, Reset (t\<lparr>deleteDir := True\<rparr>) w2)
           | (None, w2) \<Rightarrow> (Inr (t\<lparr>deleteDir := True\<rparr>), w2)))"
  using assms
  by (simp add: NewTemporaryWithFiles_def Let_def split: prod.splits sum.splits option.splits)

section \<open>The claims\<close>

subsection \<open>Claim C1\<close>

text \<open>
  Claim C1, as amended.  After a successful \<^verbatim>\<open>NewTemporary(dir, true)\<close>, whatever the
  directory and whatever GOPATH was before, the environment variable and
  \<^verbatim>\<open>build.Default.GOPATH\<close> hold the same value, made of the directory, a colon and the
  old value, and the field \<^verbatim>\<open>Orig\<close> of the result holds the old value, the one the
  cache and the environment agreed on.  With \<^verbatim>\<open>NewTemporary\<close> of \<^verbatim>\<open>src/fakegopath.go\<close>
  the directory is put in front: the directory, then a colon, then the old value.
  With the copy of \<^verbatim>\<open>NewTemporary\<close> in \<^verbatim>\<open>src/unnamed/part_000\<close> it is put behind: the
  old value, then a colon, then the directory.
\<close>

theorem NewTemporary_gopath:
  "(NewTemporary dir True w = (Inr t, w') \<longrightarrow>
      GOPATH_env w' = dir @ '':'' @ GOPATH_env w \<and>
      GOPATH_build w' = dir @ '':'' @ GOPATH_env w \<and>
      Orig t = GOPATH_env w \<and> GOPATH_build w = GOPATH_env w) \<and>
   (NewTemporary_part000 dir True w = (Inr t0, w0) \<longrightarrow>
      GOPATH_env w0 = GOPATH_env w @ '':'' @ dir \<and>
      GOPATH_build w0 = GOPATH_env w @ '':'' @ dir \<and>
      Orig t0 = GOPATH_env w \<and> GOPATH_build w = GOPATH_env w)"
proof (intro conjI impI)
  assume a: "NewTemporary dir True w = (Inr t, w')"
  then have "GOPATH_env w' = dir @ '':'' @ GOPATH_env w \<and>
      GOPATH_build w' = dir @ '':'' @ GOPATH_env w \<and>
      Orig t = GOPATH_env w \<and> GOPATH_build w = GOPATH_env w"
  proof (cases rule: NewTemporary_cases)
    case (patched w1)
    then show ?thesis by (simp add: new_t_def)
  qed simp_all
  then show "GOPATH_env w' = dir @ '':'' @ GOPATH_env w"
    "GOPATH_build w' = dir @ '':'' @ GOPATH_env w"
    "Orig t = GOPATH_env w" "GOPATH_build w = GOPATH_env w" by simp_all
next
  assume a: "NewTemporary_part000 dir True w = (Inr t0, w0)"
  let ?ds = "[filepath_Join [dir, ''src''], filepath_Join [dir, ''pkg''], filepath_Join [dir, ''bin'']]"
  obtain r1 w1 where m: "mkdir_each ?ds w = (r1, w1)" by (cases "mkdir_each ?ds w")
  then have "made_dirs 448 w w1" by (rule mkdir_each_made)
  then have f: "GOPATH_env w1 = GOPATH_env w" "GOPATH_build w1 = GOPATH_build w"
    by (simp_all add: made_dirs_def extends_def only_fs_fields)
  from a m f have "GOPATH_env w0 = GOPATH_env w @ '':'' @ dir \<and>
      GOPATH_build w0 = GOPATH_env w @ '':'' @ dir \<and>
      Orig t0 = GOPATH_env w \<and> GOPATH_build w = GOPATH_env w"
    by (auto simp: NewTemporary_part000_def Let_def os_Getenv_GOPATH_def os_Setenv_GOPATH_def
             simp del: mkdir_each.simps split: option.splits if_splits)
  then show "GOPATH_env w0 = GOPATH_env w @ '':'' @ dir"
    "GOPATH_build w0 = GOPATH_env w @ '':'' @ dir"
    "Orig t0 = GOPATH_env w" "GOPATH_build w = GOPATH_env w" by simp_all
qed

theorem NewTemporary_gopath_witness:
  "fst (NewTemporary ''/tmp/g'' True example_world) =
     Inr \<lparr>Path = ''/tmp/g'', Orig = ''/go'', Pkg = ''/tmp/g/pkg'', Src = ''/tmp/g/src'',
          Bin = ''/tmp/g/bin'', update = True, deleteDir = False\<rparr> \<and>
   GOPATH_env (snd (NewTemporary ''/tmp/g'' True example_world)) = ''/tmp/g:/go'' \<and>
   GOPATH_build (snd (NewTemporary ''/tmp/g'' True example_world)) = ''/tmp/g:/go'' \<and>
   fst (NewTemporary_part000 ''/tmp/g'' True example_world) =
     Inr \<lparr>Path = ''/tmp/g'', Orig = ''/go'', Pkg = ''/tmp/g/pkg'', Src = ''/tmp/g/src'',
          Bin = ''/tmp/g/bin'', update = True\<rparr> \<and>
   GOPATH_env (snd (NewTemporary_part000 ''/tmp/g'' True example_world)) = ''/go:/tmp/g'' \<and>
   GOPATH_build (snd (NewTemporary_part000 ''/tmp/g'' True example_world)) = ''/go:/tmp/g''"
proof -
  let ?t = "\<lparr>Path = ''/tmp/g'', Orig = ''/go'', Pkg = ''/tmp/g/pkg'', Src = ''/tmp/g/src'',
          Bin = ''/tmp/g/bin'', update = True, deleteDir = False\<rparr>"
  let ?tp = "\<lparr>Path = ''/tmp/g'', Orig = ''/go'', Pkg = ''/tmp/g/pkg'', Src = ''/tmp/g/src'',
          Bin = ''/tmp/g/bin'', update = True\<rparr>"
  have f: "fst (NewTemporary ''/tmp/g'' True example_world) = Inr ?t"
    by code_simp
  then have h: "NewTemporary ''/tmp/g'' True example_world =
      (Inr ?t, snd (NewTemporary ''/tmp/g'' True example_world))"
    by (simp add: prod_eq_iff)
  have f0: "fst (NewTemporary_part000 ''/tmp/g'' True example_world) = Inr ?tp"
    by code_simp
  then have h0: "NewTemporary_part000 ''/tmp/g'' True example_world =
      (Inr ?tp, snd (NewTemporary_part000 ''/tmp/g'' True example_world))"
    by (simp add: prod_eq_iff)
  have e: "GOPATH_env example_world = ''/go''" by (simp add: example_world_def)
  note g = NewTemporary_gopath[of "''/tmp/g''" example_world ?t
      "snd (NewTemporary ''/tmp/g'' True example_world)" ?tp
      "snd (NewTemporary_part000 ''/tmp/g'' True example_world)"]
  from g[THEN conjunct1, THEN mp, OF h] g[THEN conjunct2, THEN mp, OF h0] f f0 e
  show ?thesis by simp
qed

text \<open>
  Claim C1 as it was stated, for both copies of \<^verbatim>\<open>NewTemporary\<close>, fails for the one in
  \<^verbatim>\<open>src/unnamed/part_000\<close>: with GOPATH \<^verbatim>\<open>/go\<close> and the directory \<^verbatim>\<open>/tmp/g\<close> it
  succeeds and leaves \<^verbatim>\<open>/go:/tmp/g\<close> in the environment and in the cache, not
  \<^verbatim>\<open>/tmp/g:/go\<close>.
\<close>

theorem NewTemporary_gopath_counterexample:
  "fst (NewTemporary_part000 ''/tmp/g'' True example_world) =
     Inr \<lparr>Path = ''/tmp/g'', Orig = ''/go'', Pkg = ''/tmp/g/pkg'', Src = ''/tmp/g/src'',
          Bin = ''/tmp/g/bin'', update = True\<rparr> \<and>
   GOPATH_env example_world = ''/go'' \<and>
   GOPATH_env (snd (NewTemporary_part000 ''/tmp/g'' True example_world)) = ''/go:/tmp/g'' \<and>
   GOPATH_build (snd (NewTemporary_part000 ''/tmp/g'' True example_world)) = ''/go:/tmp/g'' \<and>
   GOPATH_env (snd (NewTemporary_part000 ''/tmp/g'' True example_world)) \<noteq> ''/tmp/g'' @ '':'' @ ''/go''"
  by code_simp

subsection \<open>Claim C2\<close>

text \<open>
  Claim C2, as amended.  When \<^verbatim>\<open>NewTemporary(dir, true)\<close> is called while the cached
  GOPATH and the environment variable disagree, it fails, and it changes neither of the
  two.  The error is the mismatch error when the three directories could be created;
  when one of them could not, it is the error of that directory, since the loop over
  the directories runs before the two values are compared: the directory it names is
  the first of the three for which \<^verbatim>\<open>MkdirAll\<close> fails, after the ones before it were
  made, and its error is the one \<^verbatim>\<open>MkdirAll\<close> returned.
\<close>

theorem NewTemporary_mismatch:
  assumes "GOPATH_env w \<noteq> GOPATH_build w" and "NewTemporary dir True w = (r, w')"
  shows "GOPATH_env w' = GOPATH_env w \<and> GOPATH_build w' = GOPATH_build w \<and>
         (if fst (mkdir_each [filepath_Join [dir, ''src''], filepath_Join [dir, ''pkg''],
                              filepath_Join [dir, ''bin'']] w) = None
          then r = Inl (GopathMismatch (GOPATH_env w) (GOPATH_build w))
          else \<exists>d e. d \<in> {filepath_Join [dir, ''src''], filepath_Join [dir, ''pkg''],
                            filepath_Join [dir, ''bin'']} \<and> r = Inl (FailedToCreate d e) \<and>
                 (\<exists>ds1 ds2 w1.
                    [filepath_Join [dir, ''src''], filepath_Join [dir, ''pkg''],
                     filepath_Join [dir, ''bin'']] = ds1 @ d # ds2 \<and>
                    mkdir_each ds1 w = (None, w1) \<and> os_MkdirAll d 448 w1 = (Some e, w')))"
  using assms(2)
proof (cases rule: NewTemporary_cases)
  case (mkdir_failed err)
  let ?ds = "[filepath_Join [dir, ''src''], filepath_Join [dir, ''pkg''], filepath_Join [dir, ''bin'']]"
  from mkdir_each_made[OF mkdir_failed(1)] have g: "GOPATH_env w' = GOPATH_env w" "GOPATH_build w' = GOPATH_build w"
    by (simp_all add: made_dirs_def extends_def only_fs_fields)
  from mkdir_each_failed[OF mkdir_failed(1)] obtain ds1 d ds2 w1 e where
    f: "?ds = ds1 @ d # ds2" "mkdir_each ds1 w = (None, w1)"
       "os_MkdirAll d 448 w1 = (Some e, w')" "err = FailedToCreate d e"
    by blast
  have "d \<in> set (ds1 @ d # ds2)" by simp
  then have "d \<in> set ?ds" unfolding f(1)[symmetric] .
  then have m: "d \<in> {filepath_Join [dir, ''src''], filepath_Join [dir, ''pkg''], filepath_Join [dir, ''bin'']}"
    by simp
  from mkdir_failed(2) f(4) have r: "r = Inl (FailedToCreate d e)" by simp
  from f(1) f(2) f(3) have x: "\<exists>ds1 ds2 w1. ?ds = ds1 @ d # ds2 \<and>
                    mkdir_each ds1 w = (None, w1) \<and> os_MkdirAll d 448 w1 = (Some e, w')"
    by (intro exI[of _ ds1] exI[of _ ds2] exI[of _ w1] conjI)
  from m r x have "\<exists>d e. d \<in> {filepath_Join [dir, ''src''], filepath_Join [dir, ''pkg''],
                            filepath_Join [dir, ''bin'']} \<and> r = Inl (FailedToCreate d e) \<and>
                 (\<exists>ds1 ds2 w1. ?ds = ds1 @ d # ds2 \<and>
                    mkdir_each ds1 w = (None, w1) \<and> os_MkdirAll d 448 w1 = (Some e, w'))"
    by (intro exI[of _ d] exI[of _ e] conjI)
  moreover have "fst (mkdir_each ?ds w) \<noteq> None" using mkdir_failed(1) by simp
  ultimately show ?thesis using g by (simp only: if_False simp_thms)
next
  case mismatch
  from mkdir_each_made[OF mismatch(1)] have "GOPATH_env w' = GOPATH_env w" "GOPATH_build w' = GOPATH_build w"
    by (simp_all add: made_dirs_def extends_def only_fs_fields)
  with mismatch show ?thesis by simp
next
  case (patched w1)
  with assms(1) show ?thesis by simp
qed simp

theorem NewTemporary_mismatch_witness:
  "GOPATH_env stale_world \<noteq> GOPATH_build stale_world \<and>
   fst (NewTemporary ''/tmp/g'' True stale_world) = Inl (GopathMismatch ''/go'' ''/stale'') \<and>
   GOPATH_env (snd (NewTemporary ''/tmp/g'' True stale_world)) = ''/go'' \<and>
   GOPATH_build (snd (NewTemporary ''/tmp/g'' True stale_world)) = ''/stale''"
proof -
  have g: "GOPATH_env stale_world = ''/go''" "GOPATH_build stale_world = ''/stale''"
    by (simp_all add: stale_world_def example_world_def)
  then have ne: "GOPATH_env stale_world \<noteq> GOPATH_build stale_world" by simp
  have m: "fst (mkdir_each [filepath_Join [''/tmp/g'', ''src''], filepath_Join [''/tmp/g'', ''pkg''],
                            filepath_Join [''/tmp/g'', ''bin'']] stale_world) = None"
    by code_simp
  have h: "NewTemporary ''/tmp/g'' True stale_world =
      (fst (NewTemporary ''/tmp/g'' True stale_world), snd (NewTemporary ''/tmp/g'' True stale_world))"
    by simp
  from NewTemporary_mismatch[OF ne h] m g ne show ?thesis by simp
qed

text \<open>
  The claim as it was written says the error is always the mismatch error.  In
  \<open>stale_world\<close> the two values disagree, and \<^verbatim>\<open>f\<close> is a regular file of the working
  directory: \<^verbatim>\<open>NewTemporary("f/x", true)\<close> returns the error of \<^verbatim>\<open>MkdirAll\<close>.
\<close>

theorem NewTemporary_mismatch_counterexample:
  "GOPATH_env stale_world \<noteq> GOPATH_build stale_world \<and>
   fst (NewTemporary ''f/x'' True stale_world) = Inl (FailedToCreate ''f/x/src'' ENOTDIR)"
proof -
  have "GOPATH_env stale_world \<noteq> GOPATH_build stale_world"
    by (simp add: stale_world_def example_world_def)
  moreover have "fst (NewTemporary ''f/x'' True stale_world) = Inl (FailedToCreate ''f/x/src'' ENOTDIR)"
    by code_simp
  ultimately show ?thesis by simp
qed

subsection \<open>Claim C3\<close>

text \<open>
  Claim C3.  Let \<open>t\<close> be the workspace a successful \<^verbatim>\<open>NewTemporary(dir, true)\<close> returned
  in the world \<open>w0\<close>.  Then \<^verbatim>\<open>Reset\<close>, called in any later world \<open>w\<close> (so after any
  changes other code made to GOPATH in between), sets the environment variable and
  \<^verbatim>\<open>build.Default.GOPATH\<close> to the value GOPATH had in \<open>w0\<close>, the one recorded in
  \<^verbatim>\<open>Orig\<close>; a call of \<^verbatim>\<open>KeepTempDir\<close> in between changes nothing in this.
\<close>

theorem Reset_restores:
  assumes "NewTemporary dir True w0 = (Inr t, w1)"
  shows "GOPATH_env (Reset t w) = GOPATH_env w0 \<and> GOPATH_build (Reset t w) = GOPATH_env w0 \<and>
         GOPATH_env (Reset (KeepTempDir keep t) w) = GOPATH_env w0 \<and>
         GOPATH_build (Reset (KeepTempDir keep t) w) = GOPATH_env w0 \<and>
         Orig t = GOPATH_env w0 \<and> GOPATH_build w0 = GOPATH_env w0"
  using assms
proof (cases rule: NewTemporary_cases)
  case (patched w1')
  then have t: "update t" "Orig t = GOPATH_env w0" "update (KeepTempDir keep t)"
    "Orig (KeepTempDir keep t) = GOPATH_env w0"
    by (simp_all add: new_t_def KeepTempDir_def)
  from Reset_gopath[OF t(1)] Reset_gopath[OF t(3)] t patched(3) show ?thesis by simp
qed simp_all

theorem Reset_restores_witness:
  "GOPATH_env (Reset \<lparr>Path = ''/tmp/g'', Orig = ''/go'', Pkg = ''/tmp/g/pkg'', Src = ''/tmp/g/src'',
          Bin = ''/tmp/g/bin'', update = True, deleteDir = False\<rparr>
     ((snd (NewTemporary ''/tmp/g'' True example_world))\<lparr>GOPATH_env := ''/elsewhere'', GOPATH_build := ''/other''\<rparr>)) = ''/go'' \<and>
   GOPATH_build (Reset \<lparr>Path = ''/tmp/g'', Orig = ''/go'', Pkg = ''/tmp/g/pkg'', Src = ''/tmp/g/src'',
          Bin = ''/tmp/g/bin'', update = True, deleteDir = False\<rparr>
     ((snd (NewTemporary ''/tmp/g'' True example_world))\<lparr>GOPATH_env := ''/elsewhere'', GOPATH_build := ''/other''\<rparr>)) = ''/go''"
proof -
  let ?t = "\<lparr>Path = ''/tmp/g'', Orig = ''/go'', Pkg = ''/tmp/g/pkg'', Src = ''/tmp/g/src'',
          Bin = ''/tmp/g/bin'', update = True, deleteDir = False\<rparr>"
  have f: "fst (NewTemporary ''/tmp/g'' True example_world) = Inr ?t"
    by code_simp
  then have h: "NewTemporary ''/tmp/g'' True example_world =
      (Inr ?t, snd (NewTemporary ''/tmp/g'' True example_world))"
    by (simp add: prod_eq_iff)
  have e: "GOPATH_env example_world = ''/go''" by (simp add: example_world_def)
  from Reset_restores[OF h] e show ?thesis by simp
qed

subsection \<open>Claim C4\<close>

text \<open>
  Claim C4.  When \<^verbatim>\<open>NewTemporaryWithFiles\<close> fails after \<^verbatim>\<open>ioutil.TempDir\<close> has made
  the directory \<open>dir\<close>, be it in \<^verbatim>\<open>NewTemporary\<close> or in \<^verbatim>\<open>Copy\<close>, nothing is left at
  the location of that directory or below it in the world the call returns in, and the
  environment variable and \<^verbatim>\<open>build.Default.GOPATH\<close> have the values they had before
  the call.
\<close>

theorem NewTemporaryWithFiles_cleans_up:
  assumes "ioutil_TempDir prefix' rnd w = (Inr dir, w0)"
    and "NewTemporaryWithFiles prefix' files rnd w = (Inl err, w')"
  shows "(\<exists>a. locate w0 dir = Inr a \<and>
              inodes w0 a = Some (Directory (448 AND NOT (umask w))) \<and>
              (\<forall>q. prefix a q \<longrightarrow> inodes w' q = None)) \<and>
         GOPATH_env w' = GOPATH_env w \<and> GOPATH_build w' = GOPATH_build w"
proof -
  from TempDir_result[OF assms(1)] have mk: "os_Mkdir dir 448 w = Inr w0" .
  from Mkdir_result[OF mk] obtain a where a: "locate w dir = Inr a"
    and nn: "normal_name (final_elem dir)"
    and w0: "w0 = w\<lparr>inodes := (inodes w)(a \<mapsto> Directory (448 AND NOT (umask w)))\<rparr>"
    by blast
  from Mkdir_extends[OF mk] have e0: "extends w w0" .
  then have f0: "GOPATH_env w0 = GOPATH_env w" "GOPATH_build w0 = GOPATH_build w"
    by (simp_all add: extends_def only_fs_fields)
  from e0 a have l0: "locate w0 dir = Inr a" using extends_keeps_dirs locate_mono by blast
  from w0 have d0: "inodes w0 a = Some (Directory (448 AND NOT (umask w)))" by simp
  obtain r1 w1 where nt: "NewTemporary dir True w0 = (r1, w1)" by (cases "NewTemporary dir True w0")
  have gone: "(\<forall>q. prefix a q \<longrightarrow> inodes w' q = None) \<and>
      GOPATH_env w' = GOPATH_env w0 \<and> GOPATH_build w' = GOPATH_build w0"
    using nt
  proof (cases rule: NewTemporary_cases)
    case (mkdir_failed e)
    from mkdir_each_made[OF mkdir_failed(1)] have m: "extends w0 w1" by (simp add: made_dirs_def)
    then have l1: "locate w1 dir = Inr a" using l0 extends_keeps_dirs locate_mono by blast
    from assms(2) nt mkdir_failed(2) have "w' = snd (os_RemoveAll dir w1)"
      by (simp add: NewTemporaryWithFiles_unfold[OF assms(1)])
    with RemoveAll_removed[OF nn l1] have "inodes w' = (\<lambda>q. if prefix a q then None else inodes w1 q)"
      "only_fs w1 w'" by simp_all
    with m show ?thesis by (simp add: extends_def only_fs_fields)
  next
    case plain
    then show ?thesis by simp
  next
    case mismatch
    from mkdir_each_made[OF mismatch(1)] have m: "extends w0 w1" by (simp add: made_dirs_def)
    then have l1: "locate w1 dir = Inr a" using l0 extends_keeps_dirs locate_mono by blast
    from assms(2) nt mismatch(4) have "w' = snd (os_RemoveAll dir w1)"
      by (simp add: NewTemporaryWithFiles_unfold[OF assms(1)])
    with RemoveAll_removed[OF nn l1] have "inodes w' = (\<lambda>q. if prefix a q then None else inodes w1 q)"
      "only_fs w1 w'" by simp_all
    with m show ?thesis by (simp add: extends_def only_fs_fields)
  next
    case (patched w1')
    define t' where "t' = (new_t dir True)\<lparr>Orig := GOPATH_build w0, deleteDir := True\<rparr>"
    have t': "update t'" "deleteDir t'" "Path t' = dir" "Orig t' = GOPATH_build w0"
      by (simp_all add: t'_def new_t_def)
    from mkdir_each_made[OF patched(1)] have "keeps_dirs w0 w1'"
      by (simp add: made_dirs_def extends_keeps_dirs)
    with l0 have "locate w1' dir = Inr a" using locate_mono by blast
    moreover from patched(5) have "inodes w1 = inodes w1'" "cwd w1 = cwd w1'" by simp_all
    ultimately have l1: "locate w1 dir = Inr a" using locate_same[of w1 w1' dir] by simp
    obtain r2 w2 where cp: "Copy t' files w1 = (r2, w2)" by (cases "Copy t' files w1")
    from Copy_keeps_dirs[OF cp] l1 have l2: "locate w2 dir = Inr a" using locate_mono by blast
    from assms(2) nt patched(4) cp have "w' = Reset t' w2"
      by (cases r2) (simp_all add: NewTemporaryWithFiles_unfold[OF assms(1)] t'_def)
    moreover from Reset_removes[of t' w2 a] t' nn l2
    have "inodes (Reset t' w2) = (\<lambda>q. if prefix a q then None else inodes w2 q)" by simp
    moreover note Reset_gopath[OF t'(1), of w2]
    ultimately show ?thesis using t'(4) patched(3) by simp
  qed
  with l0 d0 f0 show ?thesis by (intro conjI exI[of _ a]) simp_all
qed

theorem NewTemporaryWithFiles_cleans_up_witness:
  "fst (ioutil_TempDir ''g'' 42 example_world) = Inr ''/tmp/g42'' \<and>
   fst (NewTemporaryWithFiles ''g'' three_files 42 example_world)
     = Inl (FailedToOpen ''/nope'' ENOENT) \<and>
   inodes (snd (NewTemporaryWithFiles ''g'' three_files 42 example_world)) [''tmp'', ''g42''] = None \<and>
   inodes (snd (NewTemporaryWithFiles ''g'' three_files 42 example_world))
     [''tmp'', ''g42'', ''src'', ''one.txt''] = None \<and>
   GOPATH_env (snd (NewTemporaryWithFiles ''g'' three_files 42 example_world)) = ''/go'' \<and>
   GOPATH_build (snd (NewTemporaryWithFiles ''g'' three_files 42 example_world)) = ''/go'' \<and>
   fst (NewTemporaryWithFiles ''g'' [] 42 stale_world) = Inl (GopathMismatch ''/go'' ''/stale'') \<and>
   inodes (snd (NewTemporaryWithFiles ''g'' [] 42 stale_world)) [''tmp'', ''g42''] = None"
proof -
  let ?T = "ioutil_TempDir ''g'' 42 example_world"
  let ?X = "NewTemporaryWithFiles ''g'' three_files 42 example_world"
  let ?T' = "ioutil_TempDir ''g'' 42 stale_world"
  let ?Y = "NewTemporaryWithFiles ''g'' [] 42 stale_world"
  have t: "fst ?T = Inr ''/tmp/g42''" by code_simp
  then have h1: "?T = (Inr ''/tmp/g42'', snd ?T)" by (simp add: prod_eq_iff)
  have x: "fst ?X = Inl (FailedToOpen ''/nope'' ENOENT)" by code_simp
  then have h2: "?X = (Inl (FailedToOpen ''/nope'' ENOENT), snd ?X)" by (simp add: prod_eq_iff)
  have l: "locate (snd ?T) ''/tmp/g42'' = Inr [''tmp'', ''g42'']" by code_simp
  have g: "GOPATH_env example_world = ''/go''" "GOPATH_build example_world = ''/go''"
    by (simp_all add: example_world_def)
  from NewTemporaryWithFiles_cleans_up[OF h1 h2] obtain a where
    a: "locate (snd ?T) ''/tmp/g42'' = Inr a" "\<forall>q. prefix a q \<longrightarrow> inodes (snd ?X) q = None"
    and e: "GOPATH_env (snd ?X) = GOPATH_env example_world"
      "GOPATH_build (snd ?X) = GOPATH_build example_world"
    by (elim exE conjE) (rule that)
  from a(1) l have "a = [''tmp'', ''g42'']" by simp
  with a(2) have r: "inodes (snd ?X) [''tmp'', ''g42''] = None"
    "inodes (snd ?X) [''tmp'', ''g42'', ''src'', ''one.txt''] = None" by simp_all
  have t': "fst ?T' = Inr ''/tmp/g42''" by code_simp
  then have h1': "?T' = (Inr ''/tmp/g42'', snd ?T')" by (simp add: prod_eq_iff)
  have y: "fst ?Y = Inl (GopathMismatch ''/go'' ''/stale'')" by code_simp
  then have h2': "?Y = (Inl (GopathMismatch ''/go'' ''/stale''), snd ?Y)" by (simp add: prod_eq_iff)
  have l': "locate (snd ?T') ''/tmp/g42'' = Inr [''tmp'', ''g42'']" by code_simp
  from NewTemporaryWithFiles_cleans_up[OF h1' h2'] obtain b where
    b: "locate (snd ?T') ''/tmp/g42'' = Inr b" "\<forall>q. prefix b q \<longrightarrow> inodes (snd ?Y) q = None"
    by (elim exE conjE) (rule that)
  from b(1) l' have "b = [''tmp'', ''g42'']" by simp
  with b(2) have r': "inodes (snd ?Y) [''tmp'', ''g42''] = None" by simp
  from t x r e g y r' show ?thesis by simp
qed

subsection \<open>Claim C5\<close>

text \<open>
  Claim C5.  \<^verbatim>\<open>Copy\<close> goes through the entries in order: when the entries \<open>before\<close>
  have been copied without an error, reaching the world \<open>w1\<close>, the rest is copied from
  \<open>w1\<close> on; an entry with content goes to \<^verbatim>\<open>WriteFile\<close>, one without to \<^verbatim>\<open>CopyFile\<close>.
  When the next entry \<open>f\<close> fails there, \<^verbatim>\<open>Copy\<close> returns the error of \<open>f\<close> in the
  world \<open>w2\<close> the failed attempt ended in, whatever entries come after it (none of
  them is tried), and everything that existed in \<open>w1\<close> is still there unchanged in
  \<open>w2\<close>.  Every entry \<open>e\<close> before the failing one has been written to disk and is
  still there: its turn started in a world \<open>wa\<close> and ended without an error in a world
  \<open>wb\<close>, where its destination under the source directory is a regular file that
  starts with the bytes of the entry (its content, or the content of the file its
  \<^verbatim>\<open>Src\<close> names), and is these bytes with mode 0600 less the umask when nothing was
  there before; in the final world \<open>w2\<close> the destination still is a regular file at the
  same place, with the same mode, and with the same content unless one of the entries
  between \<open>e\<close> and the failing one has the same destination.
\<close>

theorem Copy_stops_at_first_failure:
  assumes "Copy t before w = (None, w1)" and "Copy t [f] w1 = (Some err, w2)"
  shows "Copy t (before @ f # after) w = (Some err, w2) \<and>
         (\<forall>q n. inodes w1 q = Some n \<longrightarrow> inodes w2 q = Some n) \<and>
         (\<forall>fs. Copy t (before @ fs) w = Copy t fs w1) \<and>
         Copy t [f] w1 =
           (case Content f of
              Some content \<Rightarrow> WriteFile t (Dest f) (Buffer content) w1
            | None \<Rightarrow> CopyFile t (Dest f) (SourceFile.Src f) w1) \<and>
         (\<forall>xs e ys. before = xs @ e # ys \<longrightarrow>
            (\<exists>wa wb bs h m cb c.
               Copy t xs w = (None, wa) \<and> Copy t [e] wa = (None, wb) \<and>
               Copy t ys wb = (None, w1) \<and>
               entry_bytes e wa = Some bs \<and>
               locate wb (filepath_Join [Temporary_part000.Src t, Dest e]) = Inr h \<and>
               os_Stat wb (filepath_Join [Temporary_part000.Src t, Dest e]) = Inr (File m cb) \<and>
               take (length bs) cb = bs \<and>
               (inodes wa h = None \<longrightarrow> cb = bs \<and> m = 384 AND NOT (umask w)) \<and>
               locate w2 (filepath_Join [Temporary_part000.Src t, Dest e]) = Inr h \<and>
               os_Stat w2 (filepath_Join [Temporary_part000.Src t, Dest e]) = Inr (File m c) \<and>
               ((\<forall>e' \<in> set ys. locate w2 (filepath_Join [Temporary_part000.Src t, Dest e']) \<noteq> Inr h)
                  \<longrightarrow> c = cb)))"
proof -
  have a: "Copy t (before @ fs) w = Copy t fs w1" for fs
    using assms(1) by (simp add: Copy_append)
  have "Copy t (f # after) w1 = (Some err, w2)"
    using assms(2) by (simp add: Copy_Cons[of t f after w1])
  with a have b: "Copy t (before @ f # after) w = (Some err, w2)" by simp
  from Copy_single_failed_extends[OF assms(2)] have x: "extends w1 w2" .
  then have c: "\<forall>q n. inodes w1 q = Some n \<longrightarrow> inodes w2 q = Some n"
    by (simp add: extends_def)
  from x have k12: "keeps_dirs w1 w2" by (rule extends_keeps_dirs)
  have d: "\<exists>wa wb bs h m cb c.
               Copy t xs w = (None, wa) \<and> Copy t [e] wa = (None, wb) \<and>
               Copy t ys wb = (None, w1) \<and>
               entry_bytes e wa = Some bs \<and>
               locate wb (filepath_Join [Temporary_part000.Src t, Dest e]) = Inr h \<and>
               os_Stat wb (filepath_Join [Temporary_part000.Src t, Dest e]) = Inr (File m cb) \<and>
               take (length bs) cb = bs \<and>
               (inodes wa h = None \<longrightarrow> cb = bs \<and> m = 384 AND NOT (umask w)) \<and>
               locate w2 (filepath_Join [Temporary_part000.Src t, Dest e]) = Inr h \<and>
               os_Stat w2 (filepath_Join [Temporary_part000.Src t, Dest e]) = Inr (File m c) \<and>
               ((\<forall>e' \<in> set ys. locate w2 (filepath_Join [Temporary_part000.Src t, Dest e']) \<noteq> Inr h)
                  \<longrightarrow> c = cb)"
    if split: "before = xs @ e # ys" for xs e ys
  proof -
    let ?dest = "filepath_Join [Temporary_part000.Src t, Dest e]"
    from assms(1) have "Copy t (xs @ e # ys) w = (None, w1)" unfolding split .
    then show ?thesis
    proof (cases rule: Copy_split)
      case (1 wa wb)
      from Copy_keeps_dirs[OF 1(1)] have "only_fs w wa" by simp
      then have u: "umask wa = umask w" by (simp add: only_fs_fields)
      from Copy_keeps_dirs[OF 1(3)] have kb1: "keeps_dirs wb w1" by simp
      from Copy_keeps_files[OF 1(3)] have fb1: "keeps_files wb w1" .
      from 1(2) show ?thesis
      proof (cases rule: Copy_single_puts)
        case (1 h bs m cb)
        note p = this
        from p(2) p(3) p(4) have sb: "os_Stat wb ?dest = Inr (File m cb)"
          by (simp add: os_Stat_def)
        from kb1 p(2) have l1: "locate w1 ?dest = Inr h" by (rule locate_mono)
        with k12 have l2: "locate w2 ?dest = Inr h" by (rule locate_mono)
        from fb1 p(4) obtain c where i1: "inodes w1 h = Some (File m c)"
          unfolding keeps_files_def by fast
        with c have i2: "inodes w2 h = Some (File m c)" by simp
        with l2 p(3) have s2: "os_Stat w2 ?dest = Inr (File m c)" by (simp add: os_Stat_def)
        have same: "c = cb"
          if n: "\<forall>e' \<in> set ys. locate w2 (filepath_Join [Temporary_part000.Src t, Dest e']) \<noteq> Inr h"
        proof -
          have "\<forall>e' \<in> set ys. locate w1 (filepath_Join [Temporary_part000.Src t, Dest e']) \<noteq> Inr h"
          proof
            fix e' assume "e' \<in> set ys"
            with n have "locate w2 (filepath_Join [Temporary_part000.Src t, Dest e']) \<noteq> Inr h" by simp
            then show "locate w1 (filepath_Join [Temporary_part000.Src t, Dest e']) \<noteq> Inr h"
              using locate_mono[OF k12] by fast
          qed
          from Copy_untouched[OF \<open>Copy t ys wb = (None, w1)\<close> this p(4)] i1 show ?thesis by simp
        qed
        from p(6) u have fr1: "cb = bs" and fr2: "m = 384 AND NOT (umask w)" if "inodes wa h = None"
          using that by simp_all
        show ?thesis
          by (rule exI[of _ wa], rule exI[of _ wb], rule exI[of _ bs], rule exI[of _ h],
              rule exI[of _ m], rule exI[of _ cb], rule exI[of _ c], intro conjI impI)
            (fact \<open>Copy t xs w = (None, wa)\<close> \<open>Copy t [e] wa = (None, wb)\<close>
                  \<open>Copy t ys wb = (None, w1)\<close> p(1) p(2) sb p(5) l2 s2 | erule fr1 | erule fr2 | erule same)+
      qed
    qed
  qed
  from Copy_single[of t f w1] have e: "Copy t [f] w1 =
           (case Content f of
              Some content \<Rightarrow> WriteFile t (Dest f) (Buffer content) w1
            | None \<Rightarrow> CopyFile t (Dest f) (SourceFile.Src f) w1)" .
  show ?thesis
    by (intro conjI allI impI) (fact b c[rule_format] a e d | assumption)+
qed


theorem Copy_stops_at_first_failure_witness:
  "fst (Copy example_ws mixed_files workspace_world) = Some (FailedToOpen ''/nope'' ENOENT) \<and>
   os_Stat (snd (Copy example_ws mixed_files workspace_world)) ''/tmp/g/src/new.txt''
     = Inr (File 384 ''hello world'') \<and>
   os_Stat (snd (Copy example_ws mixed_files workspace_world)) ''/tmp/g/src/one.txt''
     = Inr (File 384 ''1'') \<and>
   os_Stat (snd (Copy example_ws mixed_files workspace_world)) ''/tmp/g/src/two.txt'' = Inl ENOENT \<and>
   os_Stat (snd (Copy example_ws mixed_files workspace_world)) ''/tmp/g/src/three.txt'' = Inl ENOENT \<and>
   fst (Copy example_ws three_files workspace_world) = Some (FailedToOpen ''/nope'' ENOENT) \<and>
   os_Stat (snd (Copy example_ws three_files workspace_world)) ''/tmp/g/src/one.txt''
     = Inr (File 384 ''1'') \<and>
   os_Stat (snd (Copy example_ws three_files workspace_world)) ''/tmp/g/src/two.txt'' = Inl ENOENT \<and>
   os_Stat (snd (Copy example_ws three_files workspace_world)) ''/tmp/g/src/three.txt'' = Inl ENOENT"
proof -
  let ?e0 = "\<lparr>Src = ''/tmp/g/src/old.txt'', Dest = ''new.txt'', Content = None\<rparr>"
  let ?e1 = "\<lparr>Src = [], Dest = ''one.txt'', Content = Some ''1''\<rparr>"
  let ?e2 = "\<lparr>Src = ''/nope'', Dest = ''two.txt'', Content = None\<rparr>"
  let ?e3 = "\<lparr>Src = [], Dest = ''three.txt'', Content = Some ''3''\<rparr>"
  let ?w1 = "snd (Copy example_ws [?e0, ?e1] workspace_world)"
  let ?w2 = "snd (Copy example_ws [?e2] ?w1)"
  let ?h = "[''tmp'', ''g'', ''src'', ''new.txt'']"
  have "fst (Copy example_ws [?e0, ?e1] workspace_world) = None" by code_simp
  then have h1: "Copy example_ws [?e0, ?e1] workspace_world = (None, ?w1)" by (simp add: prod_eq_iff)
  have "fst (Copy example_ws [?e2] ?w1) = Some (FailedToOpen ''/nope'' ENOENT)" by code_simp
  then have h2: "Copy example_ws [?e2] ?w1 = (Some (FailedToOpen ''/nope'' ENOENT), ?w2)"
    by (simp add: prod_eq_iff)
  have t: "mixed_files = [?e0, ?e1] @ ?e2 # [?e3]" by (simp add: mixed_files_def)
  note main = Copy_stops_at_first_failure[OF h1 h2, of "[?e3]"]
  from main have r: "Copy example_ws mixed_files workspace_world = (Some (FailedToOpen ''/nope'' ENOENT), ?w2)"
    unfolding t by (rule conjunct1)
  have d: "[?e0, ?e1] = [] @ ?e0 # [?e1]" by simp
  have j: "filepath_Join [Temporary_part000.Src example_ws, Dest ?e0] = ''/tmp/g/src/new.txt''"
    "filepath_Join [Temporary_part000.Src example_ws, Dest ?e1] = ''/tmp/g/src/one.txt''"
    by code_simp+
  have l: "locate ?w2 ''/tmp/g/src/new.txt'' = Inr ?h"
    "locate ?w2 ''/tmp/g/src/one.txt'' = Inr [''tmp'', ''g'', ''src'', ''one.txt'']"
    by code_simp+
  have b: "entry_bytes ?e0 workspace_world = Some ''hello world''" by code_simp
  have n: "inodes workspace_world ?h = None" by code_simp
  have u: "384 AND NOT (umask workspace_world) = 384" by code_simp
  from main[THEN conjunct2, THEN conjunct2, THEN conjunct2, THEN conjunct2, rule_format, OF d]
  obtain wa bs h m cb c where
    a1: "Copy example_ws [] workspace_world = (None, wa)" and
    a2: "entry_bytes ?e0 wa = Some bs" and
    a3: "inodes wa h = None \<longrightarrow> cb = bs \<and> m = 384 AND NOT (umask workspace_world)" and
    a4: "locate ?w2 (filepath_Join [Temporary_part000.Src example_ws, Dest ?e0]) = Inr h" and
    a5: "os_Stat ?w2 (filepath_Join [Temporary_part000.Src example_ws, Dest ?e0]) = Inr (File m c)" and
    a6: "(\<forall>e' \<in> set [?e1]. locate ?w2 (filepath_Join [Temporary_part000.Src example_ws, Dest e']) \<noteq> Inr h)
           \<longrightarrow> c = cb"
    by (elim exE conjE) (rule that, assumption+)
  from a1 have wa: "wa = workspace_world" by simp
  from a4 have h: "h = ?h" unfolding j l by simp
  from a2 b have bs: "bs = ''hello world''" unfolding wa by simp
  from a3 n have cb: "cb = bs" and m: "m = 384" unfolding wa h u by simp_all
  have "locate ?w2 (filepath_Join [Temporary_part000.Src example_ws, Dest ?e1]) \<noteq> Inr ?h"
    unfolding j l by simp
  then have "\<forall>e' \<in> set [?e1].
      locate ?w2 (filepath_Join [Temporary_part000.Src example_ws, Dest e']) \<noteq> Inr ?h"
    by simp
  from a6[unfolded h, THEN mp, OF this] have c: "c = cb" .
  from a5 have s0: "os_Stat ?w2 ''/tmp/g/src/new.txt'' = Inr (File 384 ''hello world'')"
    unfolding j c cb bs m .
  have s: "os_Stat ?w2 ''/tmp/g/src/one.txt'' = Inr (File 384 ''1'')"
    "os_Stat ?w2 ''/tmp/g/src/two.txt'' = Inl ENOENT"
    "os_Stat ?w2 ''/tmp/g/src/three.txt'' = Inl ENOENT"
    by code_simp+
  let ?v1 = "snd (Copy example_ws [?e1] workspace_world)"
  let ?v2 = "snd (Copy example_ws [?e2] ?v1)"
  have "fst (Copy example_ws [?e1] workspace_world) = None" by code_simp
  then have k1: "Copy example_ws [?e1] workspace_world = (None, ?v1)" by (simp add: prod_eq_iff)
  have "fst (Copy example_ws [?e2] ?v1) = Some (FailedToOpen ''/nope'' ENOENT)" by code_simp
  then have k2: "Copy example_ws [?e2] ?v1 = (Some (FailedToOpen ''/nope'' ENOENT), ?v2)"
    by (simp add: prod_eq_iff)
  have t3: "three_files = [?e1] @ ?e2 # [?e3]" by (simp add: three_files_def)
  from Copy_stops_at_first_failure[OF k1 k2, of "[?e3]"]
  have r3: "Copy example_ws three_files workspace_world = (Some (FailedToOpen ''/nope'' ENOENT), ?v2)"
    unfolding t3 by (rule conjunct1)
  have s3: "os_Stat ?v2 ''/tmp/g/src/one.txt'' = Inr (File 384 ''1'')"
    "os_Stat ?v2 ''/tmp/g/src/two.txt'' = Inl ENOENT"
    "os_Stat ?v2 ''/tmp/g/src/three.txt'' = Inl ENOENT"
    by code_simp+
  show ?thesis unfolding r r3 using s0 s s3 by simp
qed

subsection \<open>Claim C6\<close>

text \<open>
  Claim C6, as amended.  After a successful \<^verbatim>\<open>NewTemporary\<close> the three paths
  \<^verbatim>\<open>dir/src\<close>, \<^verbatim>\<open>dir/pkg\<close> and \<^verbatim>\<open>dir/bin\<close> name directories.  Whatever existed before
  is left as it was, with the mode it had; whatever is new is a directory of mode 0700
  less the bits of the umask.  When \<^verbatim>\<open>MkdirAll\<close> fails for one of the three, after the
  ones before it were made, the function returns the error \<^verbatim>\<open>failed to create\<close> with
  the path of that one.
\<close>

theorem NewTemporary_directories:
  assumes "NewTemporary dir u w = (r, w')"
  shows "(\<forall>t. r = Inr t \<longrightarrow>
            Temporary_part000.Src t = filepath_Join [dir, ''src''] \<and>
            Pkg t = filepath_Join [dir, ''pkg''] \<and> Bin t = filepath_Join [dir, ''bin''] \<and>
            (\<exists>m. os_Stat w' (Temporary_part000.Src t) = Inr (Directory m)) \<and>
            (\<exists>m. os_Stat w' (Pkg t) = Inr (Directory m)) \<and>
            (\<exists>m. os_Stat w' (Bin t) = Inr (Directory m))) \<and>
         (\<forall>q n. inodes w q = Some n \<longrightarrow> inodes w' q = Some n) \<and>
         (\<forall>q. inodes w q = None \<longrightarrow>
              inodes w' q = None \<or> inodes w' q = Some (Directory (448 AND NOT (umask w)))) \<and>
         (\<forall>ds1 d ds2 w1 e.
            [filepath_Join [dir, ''src''], filepath_Join [dir, ''pkg''], filepath_Join [dir, ''bin'']]
               = ds1 @ d # ds2 \<and>
            mkdir_each ds1 w = (None, w1) \<and> fst (os_MkdirAll d 448 w1) = Some e \<longrightarrow>
            r = Inl (FailedToCreate d e))"
proof -
  let ?ds = "[filepath_Join [dir, ''src''], filepath_Join [dir, ''pkg''], filepath_Join [dir, ''bin'']]"
  obtain r1 w1 where m: "mkdir_each ?ds w = (r1, w1)" by (cases "mkdir_each ?ds w")
  from assms m have same: "inodes w' = inodes w1" "cwd w' = cwd w1"
    by (auto simp: NewTemporary_unfold simp del: mkdir_each.simps split: option.splits if_splits)
  from mkdir_each_made[OF m] have md: "made_dirs 448 w w1" .
  have ok: "\<exists>md. os_Stat w' d = Inr (Directory md)" if "r = Inr t" and "d \<in> set ?ds" for t d
  proof -
    from assms m that(1) have "r1 = None"
      by (auto simp: NewTemporary_unfold simp del: mkdir_each.simps split: option.splits if_splits)
    with m that(2) have "\<exists>md. os_Stat w1 d = Inr (Directory md)"
      using mkdir_each_ok by blast
    then show ?thesis by (simp add: os_Stat_same[OF same])
  qed
  have names: "Temporary_part000.Src t = filepath_Join [dir, ''src''] \<and>
      Pkg t = filepath_Join [dir, ''pkg''] \<and> Bin t = filepath_Join [dir, ''bin'']" if "r = Inr t" for t
    using assms m that
    by (auto simp: NewTemporary_unfold new_t_def simp del: mkdir_each.simps split: option.splits if_splits)
  have fail: "r = Inl (FailedToCreate d e)"
    if a1: "?ds = ds1 @ d # ds2" and a2: "mkdir_each ds1 w = (None, w2)"
      and a3: "fst (os_MkdirAll d 448 w2) = Some e"
    for ds1 d ds2 w2 e
  proof -
    obtain w3 where "os_MkdirAll d 448 w2 = (Some e, w3)"
      using a3 by (cases "os_MkdirAll d 448 w2") simp
    with a2 have "mkdir_each (ds1 @ d # ds2) w = (Some (FailedToCreate d e), w3)"
      by (simp add: mkdir_each_append)
    with a1 have "mkdir_each ?ds w = (Some (FailedToCreate d e), w3)" by simp
    with assms show ?thesis by (simp add: NewTemporary_unfold del: mkdir_each.simps)
  qed
  from md same have "(\<forall>q n. inodes w q = Some n \<longrightarrow> inodes w' q = Some n) \<and>
         (\<forall>q. inodes w q = None \<longrightarrow>
              inodes w' q = None \<or> inodes w' q = Some (Directory (448 AND NOT (umask w))))"
    by (simp add: made_dirs_def extends_def)
  moreover have "\<forall>t. r = Inr t \<longrightarrow>
            Temporary_part000.Src t = filepath_Join [dir, ''src''] \<and>
            Pkg t = filepath_Join [dir, ''pkg''] \<and> Bin t = filepath_Join [dir, ''bin''] \<and>
            (\<exists>m. os_Stat w' (Temporary_part000.Src t) = Inr (Directory m)) \<and>
            (\<exists>m. os_Stat w' (Pkg t) = Inr (Directory m)) \<and>
            (\<exists>m. os_Stat w' (Bin t) = Inr (Directory m))"
    using names ok by simp
  ultimately show ?thesis using fail by blast
qed

theorem NewTemporary_directories_witness:
  "fst (NewTemporary ''/tmp/g'' False used_world) =
     Inr \<lparr>Path = ''/tmp/g'', Orig = [], Pkg = ''/tmp/g/pkg'', Src = ''/tmp/g/src'',
          Bin = ''/tmp/g/bin'', update = False, deleteDir = False\<rparr> \<and>
   os_Stat (snd (NewTemporary ''/tmp/g'' False used_world)) ''/tmp/g/src'' = Inr (Directory 493) \<and>
   os_Stat (snd (NewTemporary ''/tmp/g'' False used_world)) ''/tmp/g/pkg'' = Inr (Directory 448) \<and>
   os_Stat (snd (NewTemporary ''/tmp/g'' False used_world)) ''/tmp/g/bin'' = Inr (Directory 448) \<and>
   inodes (snd (NewTemporary ''/tmp/g'' False used_world)) [''tmp'', ''g''] = Some (Directory 493) \<and>
   inodes (snd (NewTemporary ''/tmp/g'' False used_world)) [''tmp'', ''h''] = None \<and>
   fst (NewTemporary ''f/x'' False example_world) = Inl (FailedToCreate ''f/x/src'' ENOTDIR)"
proof -
  let ?X = "NewTemporary ''/tmp/g'' False used_world"
  let ?Y = "NewTemporary ''f/x'' False example_world"
  have f: "fst ?X = Inr \<lparr>Path = ''/tmp/g'', Orig = [], Pkg = ''/tmp/g/pkg'', Src = ''/tmp/g/src'',
          Bin = ''/tmp/g/bin'', update = False, deleteDir = False\<rparr>"
    by code_simp
  have h: "?X = (fst ?X, snd ?X)" by simp
  have old: "inodes used_world [''tmp'', ''g''] = Some (Directory 493)"
    by (simp add: used_world_def)
  have kept: "inodes (snd ?X) [''tmp'', ''g''] = Some (Directory 493)"
    by (rule NewTemporary_directories[OF h, THEN conjunct2, THEN conjunct1, rule_format, OF old])
  have s: "os_Stat (snd ?X) ''/tmp/g/src'' = Inr (Directory 493)"
    "os_Stat (snd ?X) ''/tmp/g/pkg'' = Inr (Directory 448)"
    "os_Stat (snd ?X) ''/tmp/g/bin'' = Inr (Directory 448)"
    "inodes (snd ?X) [''tmp'', ''h''] = None"
    by code_simp+
  have h2: "?Y = (fst ?Y, snd ?Y)" by simp
  have j: "[filepath_Join [''f/x'', ''src''], filepath_Join [''f/x'', ''pkg''], filepath_Join [''f/x'', ''bin'']]
      = [] @ ''f/x/src'' # [''f/x/pkg'', ''f/x/bin'']"
    by code_simp
  have e: "fst (os_MkdirAll ''f/x/src'' 448 example_world) = Some ENOTDIR"
    by code_simp
  have "fst ?Y = Inl (FailedToCreate ''f/x/src'' ENOTDIR)"
    by (rule NewTemporary_directories[OF h2, THEN conjunct2, THEN conjunct2, THEN conjunct2,
          rule_format, of "[]" "''f/x/src''" "[''f/x/pkg'', ''f/x/bin'']" example_world ENOTDIR])
       (simp add: j e)
  with f kept s show ?thesis by simp
qed

text \<open>
  The claim as it was written gives the three directories the mode 0700.  In
  \<open>used_world\<close> the directory \<^verbatim>\<open>/tmp/g/src\<close> exists with mode 0755;
  \<^verbatim>\<open>NewTemporary("/tmp/g", false)\<close> succeeds and leaves it with that mode, which has bits
  of group and others.
\<close>

theorem NewTemporary_directories_counterexample:
  "fst (NewTemporary ''/tmp/g'' False used_world) =
     Inr \<lparr>Path = ''/tmp/g'', Orig = [], Pkg = ''/tmp/g/pkg'', Src = ''/tmp/g/src'',
          Bin = ''/tmp/g/bin'', update = False, deleteDir = False\<rparr> \<and>
   os_Stat (snd (NewTemporary ''/tmp/g'' False used_world)) ''/tmp/g/src'' = Inr (Directory 493) \<and>
   (493 :: FileMode) \<noteq> 448 \<and> (493 :: FileMode) AND 63 \<noteq> 0"
  by code_simp

subsection \<open>Claim C7\<close>

text \<open>
  Claim C7.  When \<^verbatim>\<open>WriteFile(file, content)\<close> returns without an error, the path
  \<^verbatim>\<open>filepath.Join(t.Src, file)\<close> names a location \<open>h\<close>; if nothing was there before, a
  regular file is there now that holds exactly the content (its mode is 0600 less the
  umask); the directory of the path exists; and every other location that was empty
  before is empty still or holds a new directory of mode 0700 less the umask, which has
  no bits of group or others.  Nothing else has changed.  The witness is the example
  of the specification: \<^verbatim>\<open>WriteFile("a/b/c.txt", "hello")\<close> makes \<^verbatim>\<open>a\<close> and \<^verbatim>\<open>a/b\<close> under
  the source root and the file with the content \<^verbatim>\<open>hello\<close>.
\<close>

theorem WriteFile_creates:
  assumes "WriteFile t file (Buffer content) w = (None, w')"
  shows "\<exists>h. locate w' (filepath_Join [Temporary_part000.Src t, file]) = Inr h \<and>
           (inodes w h = None \<longrightarrow>
              inodes w' h = Some (File (384 AND NOT (umask w)) content) \<and>
              os_Stat w' (filepath_Join [Temporary_part000.Src t, file])
                = Inr (File (384 AND NOT (umask w)) content)) \<and>
           (\<exists>m. os_Stat w' (filepath_Dir (filepath_Join [Temporary_part000.Src t, file]))
                = Inr (Directory m)) \<and>
           (\<forall>q. q \<noteq> h \<and> inodes w q = None \<longrightarrow>
               inodes w' q = None \<or> inodes w' q = Some (Directory (448 AND NOT (umask w)))) \<and>
           (448 AND NOT (umask w)) AND 63 = 0 \<and>
           (\<forall>q n. q \<noteq> h \<and> inodes w q = Some n \<longrightarrow> inodes w' q = Some n)"
  using assms
proof (cases rule: WriteFile_effect)
  case (1 h)
  let ?full = "filepath_Join [Temporary_part000.Src t, file]"
  have st: "os_Stat w' ?full = Inr (File (384 AND NOT (umask w)) content)" if "inodes w h = None"
    using 1(1,2) 1(4)[OF that] by (simp add: os_Stat_def)
  show ?thesis
  proof (intro exI[of _ h] conjI impI allI)
    show "locate w' ?full = Inr h" by (rule 1(1))
    show "inodes w' h = Some (File (384 AND NOT (umask w)) content)" if "inodes w h = None"
      using that by (rule 1(4))
    show "os_Stat w' ?full = Inr (File (384 AND NOT (umask w)) content)" if "inodes w h = None"
      using that by (rule st)
    show "\<exists>m. os_Stat w' (filepath_Dir ?full) = Inr (Directory m)"
      by (rule WriteFile_dir[OF assms])
    show "inodes w' q = None \<or> inodes w' q = Some (Directory (448 AND NOT (umask w)))"
      if "q \<noteq> h \<and> inodes w q = None" for q
      using that 1(6) by simp
    show "(448 AND NOT (umask w)) AND 63 = 0" by (rule owner_only)
    show "inodes w' q = Some n" if "q \<noteq> h \<and> inodes w q = Some n" for q n
      using that 1(5) by simp
  qed
qed

theorem WriteFile_creates_witness:
  "fst (WriteFile example_ws ''a/b/c.txt'' (Buffer ''hello'') workspace_world) = None \<and>
   filepath_Join [Temporary_part000.Src example_ws, ''a/b/c.txt''] = ''/tmp/g/src/a/b/c.txt'' \<and>
   os_Stat workspace_world ''/tmp/g/src/a'' = Inl ENOENT \<and>
   os_Stat (snd (WriteFile example_ws ''a/b/c.txt'' (Buffer ''hello'') workspace_world))
     ''/tmp/g/src/a/b/c.txt'' = Inr (File 384 ''hello'') \<and>
   os_Stat (snd (WriteFile example_ws ''a/b/c.txt'' (Buffer ''hello'') workspace_world))
     ''/tmp/g/src/a'' = Inr (Directory 448) \<and>
   os_Stat (snd (WriteFile example_ws ''a/b/c.txt'' (Buffer ''hello'') workspace_world))
     ''/tmp/g/src/a/b'' = Inr (Directory 448)"
proof -
  let ?X = "WriteFile example_ws ''a/b/c.txt'' (Buffer ''hello'') workspace_world"
  have f: "fst ?X = None" by code_simp
  then have h: "?X = (None, snd ?X)" by (simp add: prod_eq_iff)
  have j: "filepath_Join [Temporary_part000.Src example_ws, ''a/b/c.txt''] = ''/tmp/g/src/a/b/c.txt''"
    by code_simp
  have l: "locate (snd ?X) ''/tmp/g/src/a/b/c.txt'' = Inr [''tmp'', ''g'', ''src'', ''a'', ''b'', ''c.txt'']"
    by code_simp
  have n: "inodes workspace_world [''tmp'', ''g'', ''src'', ''a'', ''b'', ''c.txt''] = None"
    by (simp add: workspace_world_def)
  have u: "384 AND NOT (umask workspace_world) = 384"
    by (simp add: workspace_world_def)
  from WriteFile_creates[OF h] obtain hh where
    hh: "locate (snd ?X) (filepath_Join [Temporary_part000.Src example_ws, ''a/b/c.txt'']) = Inr hh"
    and c: "inodes workspace_world hh = None \<longrightarrow>
      os_Stat (snd ?X) (filepath_Join [Temporary_part000.Src example_ws, ''a/b/c.txt''])
        = Inr (File (384 AND NOT (umask workspace_world)) ''hello'')"
    by (elim exE conjE) (rule that, assumption, simp)
  from hh l have "hh = [''tmp'', ''g'', ''src'', ''a'', ''b'', ''c.txt'']" by (simp add: j)
  with c n u have s: "os_Stat (snd ?X) ''/tmp/g/src/a/b/c.txt'' = Inr (File 384 ''hello'')"
    by (simp add: j)
  have d: "os_Stat workspace_world ''/tmp/g/src/a'' = Inl ENOENT"
    "os_Stat (snd ?X) ''/tmp/g/src/a'' = Inr (Directory 448)"
    "os_Stat (snd ?X) ''/tmp/g/src/a/b'' = Inr (Directory 448)"
    by code_simp+
  from f j s d show ?thesis by simp
qed

subsection \<open>Claim C8\<close>

text \<open>
  Claim C8.  \<^verbatim>\<open>WriteFile\<close> does not truncate: when a regular file with the content
  \<open>old\<close> was at the destination, it holds the new content followed by what \<open>old\<close> has
  beyond the length of the new content, and it keeps its mode.  In the witness the old
  content is longer than the new one, and its tail is still there.
\<close>

theorem WriteFile_no_truncate:
  assumes "WriteFile t file (Buffer content) w = (None, w')"
    and "locate w' (filepath_Join [Temporary_part000.Src t, file]) = Inr h"
    and "inodes w h = Some (File m old)"
  shows "inodes w' h = Some (File m (content @ drop (length content) old)) \<and>
         os_Stat w' (filepath_Join [Temporary_part000.Src t, file])
           = Inr (File m (content @ drop (length content) old))"
  using assms(1)
proof (cases rule: WriteFile_effect)
  case (1 h')
  from 1(1) assms(2) have "h' = h" by simp
  with 1(3) assms(3) have i: "inodes w' h = Some (File m (content @ drop (length content) old))"
    by simp
  with assms(2) 1(2) show ?thesis by (simp add: os_Stat_def)
qed

theorem WriteFile_no_truncate_witness:
  "fst (WriteFile example_ws ''old.txt'' (Buffer ''HEY'') workspace_world) = None \<and>
   os_Stat workspace_world ''/tmp/g/src/old.txt'' = Inr (File 420 ''hello world'') \<and>
   os_Stat (snd (WriteFile example_ws ''old.txt'' (Buffer ''HEY'') workspace_world))
     ''/tmp/g/src/old.txt'' = Inr (File 420 ''HEYlo world'')"
proof -
  let ?X = "WriteFile example_ws ''old.txt'' (Buffer ''HEY'') workspace_world"
  have f: "fst ?X = None" by code_simp
  then have h: "?X = (None, snd ?X)" by (simp add: prod_eq_iff)
  have j: "filepath_Join [Temporary_part000.Src example_ws, ''old.txt''] = ''/tmp/g/src/old.txt''"
    by code_simp
  have l: "locate (snd ?X) (filepath_Join [Temporary_part000.Src example_ws, ''old.txt''])
      = Inr [''tmp'', ''g'', ''src'', ''old.txt'']"
    unfolding j by code_simp
  have n: "inodes workspace_world [''tmp'', ''g'', ''src'', ''old.txt''] = Some (File 420 ''hello world'')"
    by (simp add: workspace_world_def)
  have o: "os_Stat workspace_world ''/tmp/g/src/old.txt'' = Inr (File 420 ''hello world'')"
    by code_simp
  from WriteFile_no_truncate[OF h l n] f o show ?thesis by (simp add: j)
qed

subsection \<open>Claim C9\<close>

text \<open>
  Claim C9, as amended.  With \<^verbatim>\<open>deleteDir\<close> false, \<^verbatim>\<open>Reset\<close> leaves the file system as
  it is; \<^verbatim>\<open>NewTemporary\<close> returns a workspace with \<^verbatim>\<open>deleteDir\<close> false; \<^verbatim>\<open>KeepTempDir\<close>
  stores the negation of its argument and leaves the path alone.  With \<^verbatim>\<open>deleteDir\<close>
  true and a root path whose last element is an ordinary name (not empty, not \<^verbatim>\<open>.\<close>,
  not \<^verbatim>\<open>..\<close>), \<^verbatim>\<open>Reset\<close> removes what the path names and everything below it, and
  nothing else.  With \<^verbatim>\<open>deleteDir\<close> true and a root path that is empty or \<^verbatim>\<open>.\<close>,
  \<^verbatim>\<open>Reset\<close> leaves the file system as it is.
\<close>

theorem Reset_removal:
  "(\<not> deleteDir t \<longrightarrow> inodes (Reset t w) = inodes w) \<and>
   deleteDir (KeepTempDir keep t) = (\<not> keep) \<and>
   Path (KeepTempDir keep t) = Path t \<and>
   (\<forall>t0 w1. NewTemporary dir u w0 = (Inr t0, w1) \<longrightarrow> \<not> deleteDir t0 \<and> Path t0 = dir) \<and>
   (deleteDir t \<and> normal_name (final_elem (Path t)) \<and> locate w (Path t) = Inr a \<longrightarrow>
      (\<forall>q. prefix a q \<longrightarrow> inodes (Reset t w) q = None) \<and>
      (\<forall>q. \<not> prefix a q \<longrightarrow> inodes (Reset t w) q = inodes w q)) \<and>
   (deleteDir t \<and> (Path t = [] \<or> Path t = ''.'') \<longrightarrow> inodes (Reset t w) = inodes w)"
proof -
  have d: "\<not> deleteDir t0 \<and> Path t0 = dir" if "NewTemporary dir u w0 = (Inr t0, w1)" for t0 w1
    using that by (cases rule: NewTemporary_cases) (simp_all add: new_t_def)
  have r: "(\<forall>q. prefix a q \<longrightarrow> inodes (Reset t w) q = None) \<and>
      (\<forall>q. \<not> prefix a q \<longrightarrow> inodes (Reset t w) q = inodes w q)"
    if "deleteDir t \<and> normal_name (final_elem (Path t)) \<and> locate w (Path t) = Inr a"
    using that Reset_removes[of t w a] by simp
  have s: "inodes (Reset t w) = inodes w" if "deleteDir t \<and> (Path t = [] \<or> Path t = ''.'')"
    using that by (rule Reset_refused)
  from d r s show ?thesis by (simp add: Reset_keeps KeepTempDir_def)
qed

theorem Reset_removal_witness:
  "inodes (Reset example_ws workspace_world) = inodes workspace_world \<and>
   deleteDir (KeepTempDir False example_ws) \<and>
   \<not> deleteDir (KeepTempDir True example_ws) \<and>
   inodes (Reset (KeepTempDir False example_ws) workspace_world) [''tmp'', ''g''] = None \<and>
   inodes (Reset (KeepTempDir False example_ws) workspace_world)
     [''tmp'', ''g'', ''src'', ''old.txt''] = None \<and>
   inodes (Reset (KeepTempDir False example_ws) workspace_world) [''tmp''] = Some (Directory 511) \<and>
   inodes (Reset (KeepTempDir True example_ws) workspace_world)
     [''tmp'', ''g'', ''src'', ''old.txt''] = Some (File 420 ''hello world'') \<and>
   inodes (Reset \<lparr>Path = ''.'', Orig = [], Pkg = ''pkg'', Src = ''src'', Bin = ''bin'',
                   update = False, deleteDir = True\<rparr> workspace_world) = inodes workspace_world"
proof -
  let ?dot = "\<lparr>Path = ''.'', Orig = [], Pkg = ''pkg'', Src = ''src'', Bin = ''bin'',
                   update = False, deleteDir = True\<rparr>"
  let ?del = "KeepTempDir False example_ws"
  let ?keep = "KeepTempDir True example_ws"
  note r1 = Reset_removal[of example_ws workspace_world False "[]" False workspace_world "[]"]
  note r2 = Reset_removal[of ?del workspace_world False "[]" False workspace_world "[''tmp'', ''g'']"]
  note r3 = Reset_removal[of example_ws workspace_world True "[]" False workspace_world "[]"]
  note r4 = Reset_removal[of ?keep workspace_world True "[]" False workspace_world "[]"]
  have nd: "\<not> deleteDir example_ws" by (simp add: example_ws_def)
  from r1 nd have a: "inodes (Reset example_ws workspace_world) = inodes workspace_world" by simp
  from r1 have b: "deleteDir ?del" by simp
  from r3 have c: "\<not> deleteDir ?keep" by simp
  have p: "Path ?del = ''/tmp/g''" by (simp add: KeepTempDir_def example_ws_def)
  have n: "normal_name (final_elem (Path ?del))" unfolding p by code_simp
  have l: "locate workspace_world (Path ?del) = Inr [''tmp'', ''g'']" unfolding p by code_simp
  from r2 b n l have d:
    "\<forall>q. prefix [''tmp'', ''g''] q \<longrightarrow> inodes (Reset ?del workspace_world) q = None"
    "\<forall>q. \<not> prefix [''tmp'', ''g''] q \<longrightarrow> inodes (Reset ?del workspace_world) q = inodes workspace_world q"
    by simp_all
  from d(1) have e1: "inodes (Reset ?del workspace_world) [''tmp'', ''g''] = None"
    "inodes (Reset ?del workspace_world) [''tmp'', ''g'', ''src'', ''old.txt''] = None"
    by simp_all
  from d(2) have e2: "inodes (Reset ?del workspace_world) [''tmp''] = Some (Directory 511)"
    by (simp add: workspace_world_def)
  from r4 c have "inodes (Reset ?keep workspace_world) = inodes workspace_world" by simp
  then have e3: "inodes (Reset ?keep workspace_world) [''tmp'', ''g'', ''src'', ''old.txt'']
      = Some (File 420 ''hello world'')"
    by (simp add: workspace_world_def)
  note r5 = Reset_removal[of ?dot workspace_world False "[]" False workspace_world "[]"]
  from r5 have e4: "inodes (Reset ?dot workspace_world) = inodes workspace_world" by simp
  from a b c e1 e2 e3 e4 show ?thesis by simp
qed

text \<open>
  The claim as it was written has \<^verbatim>\<open>KeepTempDir(false)\<close> and \<^verbatim>\<open>Reset\<close> remove the tree of
  every workspace.  For the workspace made in the working directory,
  \<^verbatim>\<open>NewTemporary(".", false)\<close>, \<^verbatim>\<open>os.RemoveAll(".")\<close> is refused with EINVAL: the error
  is logged, and the root and \<^verbatim>\<open>src\<close> are still there after \<^verbatim>\<open>Reset\<close>.  The same holds
  for the empty root path, \<^verbatim>\<open>NewTemporary("", false)\<close>, which makes the same three
  directories and which \<^verbatim>\<open>os.RemoveAll\<close> ignores.
\<close>

theorem Reset_removal_counterexample:
  "fst (NewTemporary ''.'' False example_world) =
     Inr \<lparr>Path = ''.'', Orig = [], Pkg = ''pkg'', Src = ''src'', Bin = ''bin'',
          update = False, deleteDir = False\<rparr> \<and>
   deleteDir (KeepTempDir False \<lparr>Path = ''.'', Orig = [], Pkg = ''pkg'', Src = ''src'', Bin = ''bin'',
          update = False, deleteDir = False\<rparr>) \<and>
   os_Stat (Reset (KeepTempDir False \<lparr>Path = ''.'', Orig = [], Pkg = ''pkg'', Src = ''src'',
          Bin = ''bin'', update = False, deleteDir = False\<rparr>)
       (snd (NewTemporary ''.'' False example_world))) ''.'' = Inr (Directory 493) \<and>
   os_Stat (Reset (KeepTempDir False \<lparr>Path = ''.'', Orig = [], Pkg = ''pkg'', Src = ''src'',
          Bin = ''bin'', update = False, deleteDir = False\<rparr>)
       (snd (NewTemporary ''.'' False example_world))) ''src'' = Inr (Directory 448) \<and>
   logged (Reset (KeepTempDir False \<lparr>Path = ''.'', Orig = [], Pkg = ''pkg'', Src = ''src'',
          Bin = ''bin'', update = False, deleteDir = False\<rparr>)
       (snd (NewTemporary ''.'' False example_world))) = [EINVAL] \<and>
   fst (NewTemporary [] False example_world) =
     Inr \<lparr>Path = [], Orig = [], Pkg = ''pkg'', Src = ''src'', Bin = ''bin'',
          update = False, deleteDir = False\<rparr> \<and>
   os_Stat (Reset (KeepTempDir False \<lparr>Path = [], Orig = [], Pkg = ''pkg'', Src = ''src'',
          Bin = ''bin'', update = False, deleteDir = False\<rparr>)
       (snd (NewTemporary [] False example_world))) ''src'' = Inr (Directory 448)"
  by code_simp

subsection \<open>Claim C10\<close>




end
